theory Spec2Isabelle
  imports Complex_Main
begin

section \<open>JavaScript values\<close>

text \<open>
  The program is the browser class \<open>TruthGuardAI\<close> of \<open>frontend/app.js\<close>. Its
  inputs are the values of form controls, files handed over by the browser, and the
  JSON payloads of HTTP responses. JavaScript is untyped, so a payload is modelled as
  an arbitrary JSON value and every property access, method call and coercion that can
  throw is a branch of the model.

  Strings are \<open>string\<close>: the code units of a JavaScript string, restricted to
  U+0000..U+00FF (one \<open>char\<close> per code unit).

  Numbers: every finite binary64 value is a real number, and \<open>Math.round\<close> and the
  comparisons are exact on them, so a number is a real, \<open>NaN\<close> or an infinity
  (\<open>JSON.parse\<close> yields an infinity on overflow). Negative zero is identified with
  zero: it compares, converts to boolean and prints the same.
\<close>

datatype jsnum = NaN | Fin real | PosInf | NegInf

datatype jsval =
    Undefined
  | Null
  | Bool bool
  | Num jsnum
  | Str string
  | Arr "jsval list"
  | Obj "(string \<times> jsval) list"

text \<open>\<open>a < b\<close> on numbers: false as soon as one side is \<open>NaN\<close>.\<close>

fun js_lt :: "jsnum \<Rightarrow> jsnum \<Rightarrow> bool" where
  "js_lt NaN _ = False"
| "js_lt _ NaN = False"
| "js_lt (Fin x) (Fin y) = (x < y)"
| "js_lt (Fin _) PosInf = True"
| "js_lt (Fin _) NegInf = False"
| "js_lt PosInf _ = False"
| "js_lt NegInf NegInf = False"
| "js_lt NegInf _ = True"

text \<open>\<open>a >= b\<close> is \<open>!(a < b)\<close> unless one side is \<open>NaN\<close>, and then false.\<close>

definition js_ge :: "jsnum \<Rightarrow> jsnum \<Rightarrow> bool" where
  "js_ge a b = (a \<noteq> NaN \<and> b \<noteq> NaN \<and> \<not> js_lt a b)"

definition js_gt :: "jsnum \<Rightarrow> jsnum \<Rightarrow> bool" where
  "js_gt a b = js_lt b a"

definition js_le :: "jsnum \<Rightarrow> jsnum \<Rightarrow> bool" where
  "js_le a b = js_ge b a"

text \<open>\<open>Math.round\<close>: the nearest integer, ties towards plus infinity.\<close>

fun Math_round :: "jsnum \<Rightarrow> jsnum" where
  "Math_round (Fin x) = Fin (of_int \<lfloor>x + 1 / 2\<rfloor>)"
| "Math_round n = n"

text \<open>
  The two conversions between strings and numbers (\<open>StringToNumber\<close>, which rounds a
  literal to binary64, and \<open>Number::toString\<close>) are the platform's; the program's
  behaviour is stated for any such pair.
\<close>

record platform =
  StringToNumber :: "string \<Rightarrow> jsnum"
  NumberToString :: "jsnum \<Rightarrow> string"

text \<open>\<open>ToBoolean\<close>, which decides \<open>!x\<close>, \<open>x && y\<close>, \<open>x || y\<close>, \<open>x ? a : b\<close> and \<open>if (x)\<close>.\<close>

fun ToBoolean :: "jsval \<Rightarrow> bool" where
  "ToBoolean Undefined = False"
| "ToBoolean Null = False"
| "ToBoolean (Bool b) = b"
| "ToBoolean (Num NaN) = False"
| "ToBoolean (Num (Fin x)) = (x \<noteq> 0)"
| "ToBoolean (Num _) = True"
| "ToBoolean (Str s) = (s \<noteq> [])"
| "ToBoolean (Arr _) = True"
| "ToBoolean (Obj _) = True"

text \<open>
  \<open>ToString\<close>, applied by every template hole \<open>${x}\<close> and by a property key.
  \<open>None\<close> is a thrown \<open>TypeError\<close>: an object parsed from JSON holds no function, so
  an own property \<open>toString\<close> hides \<open>Object.prototype.toString\<close> and leaves no way
  to a primitive. An array is joined with commas, \<open>null\<close> and \<open>undefined\<close> elements
  giving the empty string.
\<close>

fun ToString :: "platform \<Rightarrow> jsval \<Rightarrow> string option"
  and join_with :: "platform \<Rightarrow> string \<Rightarrow> jsval list \<Rightarrow> string option" where
  "ToString p Undefined = Some ''undefined''"
| "ToString p Null = Some ''null''"
| "ToString p (Bool b) = Some (if b then ''true'' else ''false'')"
| "ToString p (Num n) = Some (NumberToString p n)"
| "ToString p (Str s) = Some s"
| "ToString p (Arr xs) = join_with p '','' xs"
| "ToString p (Obj kv) =
     (if ''toString'' \<in> fst ` set kv then None else Some ''[object Object]'')"
| "join_with p sep [] = Some []"
| "join_with p sep (x # xs) =
     (case (if x = Undefined \<or> x = Null then Some [] else ToString p x) of
        None \<Rightarrow> None
      | Some s \<Rightarrow>
          (if xs = [] then Some s
           else (case join_with p sep xs of
                   None \<Rightarrow> None
                 | Some t \<Rightarrow> Some (s @ sep @ t))))"

text \<open>
  \<open>ToNumber\<close>, applied by \<open>Math.round\<close> and by a comparison with a number. An array
  or object goes through its string form.
\<close>

fun ToNumber :: "platform \<Rightarrow> jsval \<Rightarrow> jsnum option" where
  "ToNumber p Undefined = Some NaN"
| "ToNumber p Null = Some (Fin 0)"
| "ToNumber p (Bool b) = Some (Fin (if b then 1 else 0))"
| "ToNumber p (Num n) = Some n"
| "ToNumber p (Str s) = Some (StringToNumber p s)"
| "ToNumber p v = map_option (StringToNumber p) (ToString p v)"

text \<open>
  Reading a property under one of the fixed names the program uses (none of them is a
  member of \<open>Object.prototype\<close>). \<open>None\<close> is the \<open>TypeError\<close> of reading a property
  of \<open>undefined\<close> or \<open>null\<close>; a missing property reads as \<open>undefined\<close>. The list of an
  \<open>Obj\<close> holds the own properties of the parsed object.
\<close>

fun getprop :: "jsval \<Rightarrow> string \<Rightarrow> jsval option" where
  "getprop Undefined k = None"
| "getprop Null k = None"
| "getprop (Obj kv) k = Some (case map_of kv k of Some v \<Rightarrow> v | None \<Rightarrow> Undefined)"
| "getprop (Arr xs) k =
     Some (if k = ''length'' then Num (Fin (real (length xs))) else Undefined)"
| "getprop (Str s) k =
     Some (if k = ''length'' then Num (Fin (real (length s))) else Undefined)"
| "getprop _ k = Some Undefined"

text \<open>Optional chaining \<open>e?.k\<close>: \<open>undefined\<close> when \<open>e\<close> is \<open>undefined\<close> or \<open>null\<close>.\<close>

definition getprop_opt :: "jsval \<Rightarrow> string \<Rightarrow> jsval" where
  "getprop_opt e k = (case getprop e k of None \<Rightarrow> Undefined | Some v \<Rightarrow> v)"

text \<open>The decimal form of an array index, the only keys that address an element.\<close>

fun dec :: "nat \<Rightarrow> string" where
  "dec n = (if n < 10 then [char_of (48 + n)]
            else dec (n div 10) @ [char_of (48 + n mod 10)])"

declare dec.simps [simp del]

text \<open>
  Reading a property under a computed key, \<open>e[k]\<close>. A member inherited from a
  prototype (a function, or a prototype object) reads as \<open>undefined\<close> here: the program
  only goes on to read \<open>description\<close> and \<open>detection_tips\<close> of the result, which are
  \<open>undefined\<close> on all of those as well.
\<close>

fun getprop_dyn :: "jsval \<Rightarrow> string \<Rightarrow> jsval option" where
  "getprop_dyn (Arr xs) k =
     (case find (\<lambda>i. dec i = k) [0..<length xs] of
        Some i \<Rightarrow> Some (xs ! i)
      | None \<Rightarrow> getprop (Arr xs) k)"
| "getprop_dyn (Str s) k =
     (case find (\<lambda>i. dec i = k) [0..<length s] of
        Some i \<Rightarrow> Some (Str [s ! i])
      | None \<Rightarrow> getprop (Str s) k)"
| "getprop_dyn e k = getprop e k"

subsection \<open>String methods\<close>

text \<open>
  \<open>String.prototype.trim\<close> removes white space and line terminators from both ends;
  below U+0100 these are TAB, LF, VT, FF, CR, SP and NBSP.
\<close>

definition js_whitespace :: "char \<Rightarrow> bool" where
  "js_whitespace c = (of_char c \<in> {9, 10, 11, 12, 13, 32, 160 :: nat})"

definition trim :: "string \<Rightarrow> string" where
  "trim s = rev (dropWhile js_whitespace (rev (dropWhile js_whitespace s)))"

text \<open>
  \<open>String.prototype.toLowerCase\<close>; below U+0100 the upper-case letters are A..Z,
  U+00C0..U+00D6 and U+00D8..U+00DE, each 32 below its lower-case form.
\<close>

definition lower_char :: "char \<Rightarrow> char" where
  "lower_char c =
     (let n = of_char c :: nat
      in if (65 \<le> n \<and> n \<le> 90) \<or> (192 \<le> n \<and> n \<le> 222 \<and> n \<noteq> 215)
         then char_of (n + 32) else c)"

definition toLowerCase :: "string \<Rightarrow> string" where
  "toLowerCase s = map lower_char s"

definition startsWith :: "string \<Rightarrow> string \<Rightarrow> bool" where
  "startsWith s pre = (take (length pre) s = pre)"

section \<open>The page\<close>

text \<open>
  The state the program reads and writes: the DOM elements it addresses by id or
  selector (all of them present in the page), and the log of the network calls it
  has issued. A text slot holds the value that was assigned or substituted there; the
  browser shows its string form, and an assignment that cannot be converted to a
  string throws before it is stored. Markup inside a substituted value is not parsed.
\<close>

record jsfile =
  file_name :: string
  file_type :: string

datatype body = JsonBody jsval | FormBody jsfile

record request =
  req_url :: string
  req_method :: string
  req_body :: body

text \<open>One rendered \<open>div.claim-item\<close>; \<open>ce_techniques = None\<close> is a claim rendered
  without the "Detected techniques" block.\<close>

record claim_element =
  ce_class :: string
  ce_index :: nat
  ce_status :: string
  ce_confidence :: jsnum
  ce_text :: jsval
  ce_explanation :: jsval
  ce_techniques :: "jsval list option"

text \<open>One rendered \<open>div.technique-explanation\<close>; \<open>te_tips = None\<close> is an entry
  without the "Tips:" line.\<close>

record technique_element =
  te_name :: jsval
  te_description :: jsval
  te_tips :: "jsval list option"

datatype edu_block = Techniques "technique_element list" | VerificationTips "jsval list"

datatype js_error = TypeError | HttpError nat | NetworkError | SyntaxError

record page =
  apiBaseUrl :: string
  currentTab :: string
  contentInput_value :: string
  languageSelect_value :: string
  includeEducation_checked :: bool
  resultsSection_display :: string
  trustScore_text :: jsnum
  verdict_text :: jsval
  verdict_class :: string
  scoreCircle_class :: string
  claimsList :: "claim_element list"
  explanationText :: jsval
  sourcesList :: "jsval list"
  educationalContent :: "edu_block list"
  educationalSection_display :: string
  imageInput_files :: "jsfile list"
  previewImg_src :: "jsfile option"
  imagePreview_display :: string
  analyzeImageBtn_onclick :: "jsfile option"
  pending_reads :: "jsfile list"
  loadingModal_display :: string
  alerts :: "(string \<times> string) list"
  console :: "(string \<times> js_error) list"
  fetches :: "request list"

text \<open>A function body either runs to its end or throws part-way; either way the
  mutations made so far stay.\<close>

datatype completion = Normal page | Throw js_error page

fun and_then :: "completion \<Rightarrow> (page \<Rightarrow> completion) \<Rightarrow> completion" where
  "and_then (Normal st) f = f st"
| "and_then (Throw e st) f = Throw e st"

text \<open>The page a call leaves behind, and whether it threw.\<close>

fun completed :: "completion \<Rightarrow> page" where
  "completed (Normal st) = st"
| "completed (Throw e st) = st"

fun threw :: "completion \<Rightarrow> bool" where
  "threw (Normal st) = False"
| "threw (Throw e st) = True"

fun is_array :: "jsval \<Rightarrow> bool" where
  "is_array (Arr xs) = True"
| "is_array v = False"

subsection \<open>showLoading, showAlert, switchTab\<close>

definition showLoading :: "bool \<Rightarrow> page \<Rightarrow> page" where
  "showLoading show st = st\<lparr>loadingModal_display := (if show then ''flex'' else ''none'')\<rparr>"

text \<open>The alert is appended to the body; its removal after five seconds or by its
  close button is a later event, not part of the call.\<close>

definition showAlert :: "string \<Rightarrow> string \<Rightarrow> page \<Rightarrow> page" where
  "showAlert message type st = st\<lparr>alerts := alerts st @ [(message, type)]\<rparr>"

definition switchTab :: "string \<Rightarrow> page \<Rightarrow> page" where
  "switchTab tabName st = st\<lparr>currentTab := tabName\<rparr>"

subsection \<open>updateTrustScore\<close>

text \<open>The colour coding of \<open>updateTrustScore\<close>: its \<open>if\<close> chain, on the number the
  comparisons see.\<close>

definition bucket :: "jsnum \<Rightarrow> string" where
  "bucket score =
     (if js_ge score (Fin 80) then ''high''
      else if js_ge score (Fin 60) then ''medium''
      else ''low'')"

text \<open>Assigning \<open>textContent\<close>: \<open>null\<close> and \<open>undefined\<close> clear the text, anything
  else is converted to a string.\<close>

definition text_ok :: "platform \<Rightarrow> jsval \<Rightarrow> bool" where
  "text_ok p v =
     (case v of Undefined \<Rightarrow> True | Null \<Rightarrow> True | _ \<Rightarrow> ToString p v \<noteq> None)"

definition updateTrustScore :: "platform \<Rightarrow> jsval \<Rightarrow> jsval \<Rightarrow> page \<Rightarrow> completion" where
  "updateTrustScore p score verdict st =
     (case ToNumber p score of
        None \<Rightarrow> Throw TypeError st
      | Some n \<Rightarrow>
          let st1 = st\<lparr>trustScore_text := Math_round n\<rparr> in
          if \<not> text_ok p verdict then Throw TypeError st1
          else Normal (st1\<lparr>verdict_text := verdict,
                           scoreCircle_class := ''score-circle '' @ bucket n,
                           verdict_class := ''verdict '' @ bucket n\<rparr>))"

subsection \<open>displayClaims\<close>

text \<open>The tags of one claim: \<open>claim.manipulation_techniques.length > 0 ? ...map(...) : ''\<close>.
  Outer \<open>None\<close> is a throw.\<close>

definition technique_tags :: "platform \<Rightarrow> jsval \<Rightarrow> jsval list option option" where
  "technique_tags p mt =
     (case getprop mt ''length'' of
        None \<Rightarrow> None
      | Some len \<Rightarrow>
          (case ToNumber p len of
             None \<Rightarrow> None
           | Some n \<Rightarrow>
               if js_gt n (Fin 0) then
                 (case mt of
                    Arr techs \<Rightarrow>
                      if list_all (\<lambda>t. ToString p t \<noteq> None) techs then Some (Some techs)
                      else None
                  | _ \<Rightarrow> None)
               else Some None))"

text \<open>The element built for one claim by the callback of \<open>claims.forEach\<close>;
  \<open>None\<close> when building it throws. Nothing is written to the page before the element
  is complete, so the order of the reads inside does not show.\<close>

definition claimElement :: "platform \<Rightarrow> nat \<Rightarrow> jsval \<Rightarrow> claim_element option" where
  "claimElement p index claim =
     (case getprop claim ''trust_level'' of
        Some (Str level) \<Rightarrow>
          (case ToNumber p (getprop_opt claim ''confidence'') of
             None \<Rightarrow> None
           | Some conf \<Rightarrow>
               if ToString p (getprop_opt claim ''claim_text'') = None
                  \<or> ToString p (getprop_opt claim ''explanation'') = None then None
               else
                 (case technique_tags p (getprop_opt claim ''manipulation_techniques'') of
                    None \<Rightarrow> None
                  | Some tags \<Rightarrow>
                      Some \<lparr>ce_class = ''claim-item '' @ toLowerCase level,
                            ce_index = index + 1,
                            ce_status = level,
                            ce_confidence = Math_round conf,
                            ce_text = getprop_opt claim ''claim_text'',
                            ce_explanation = getprop_opt claim ''explanation'',
                            ce_techniques = tags\<rparr>))
      | _ \<Rightarrow> None)"

text \<open>The loop of \<open>forEach\<close>: elements are appended one by one, and a throw leaves
  the ones appended so far.\<close>

fun claims_loop :: "platform \<Rightarrow> nat \<Rightarrow> jsval list \<Rightarrow> page \<Rightarrow> completion" where
  "claims_loop p index [] st = Normal st"
| "claims_loop p index (claim # rest) st =
     (case claimElement p index claim of
        None \<Rightarrow> Throw TypeError st
      | Some el \<Rightarrow> claims_loop p (index + 1) rest (st\<lparr>claimsList := claimsList st @ [el]\<rparr>))"

definition displayClaims :: "platform \<Rightarrow> jsval \<Rightarrow> page \<Rightarrow> completion" where
  "displayClaims p claims st =
     (let st1 = st\<lparr>claimsList := []\<rparr> in
      case claims of
        Arr cs \<Rightarrow> claims_loop p 0 cs st1
      | _ \<Rightarrow> Throw TypeError st1)"

subsection \<open>displaySources\<close>

fun sources_loop :: "platform \<Rightarrow> jsval list \<Rightarrow> page \<Rightarrow> completion" where
  "sources_loop p [] st = Normal st"
| "sources_loop p (source # rest) st =
     (if ToString p source = None then Throw TypeError st
      else sources_loop p rest (st\<lparr>sourcesList := sourcesList st @ [source]\<rparr>))"

definition displaySources :: "platform \<Rightarrow> jsval \<Rightarrow> page \<Rightarrow> completion" where
  "displaySources p sources st =
     (let st1 = st\<lparr>sourcesList := []\<rparr> in
      case sources of
        Arr ss \<Rightarrow> sources_loop p ss st1
      | _ \<Rightarrow> Throw TypeError st1)"

subsection \<open>displayEducationalInsights\<close>

text \<open>The entry built for one detected technique by the callback of
  \<open>manipulation_techniques_detected.map\<close>; \<open>None\<close> when building it throws.\<close>

definition techniqueEntry :: "platform \<Rightarrow> jsval \<Rightarrow> jsval \<Rightarrow> technique_element option" where
  "techniqueEntry p insights tech =
     (case ToString p tech of
        None \<Rightarrow> None
      | Some key \<Rightarrow>
          (case getprop_dyn (getprop_opt insights ''technique_explanations'') key of
             None \<Rightarrow> None
           | Some entry \<Rightarrow>
               let d = getprop_opt entry ''description'';
                   description = (if ToBoolean d then d
                                  else Str ''Technique used to mislead readers'');
                   tips = getprop_opt entry ''detection_tips''
               in if ToString p description = None then None
                  else if ToBoolean tips then
                    (case tips of
                       Arr ts \<Rightarrow>
                         if join_with p '', '' ts = None then None
                         else Some \<lparr>te_name = tech, te_description = description,
                                    te_tips = Some ts\<rparr>
                     | _ \<Rightarrow> None)
                  else Some \<lparr>te_name = tech, te_description = description,
                             te_tips = None\<rparr>))"

definition techniques_part :: "platform \<Rightarrow> jsval \<Rightarrow> page \<Rightarrow> completion" where
  "techniques_part p insights st =
     (let mtd = getprop_opt insights ''manipulation_techniques_detected'' in
      if \<not> ToBoolean mtd then Normal st
      else
        (case ToNumber p (getprop_opt mtd ''length'') of
           None \<Rightarrow> Throw TypeError st
         | Some n \<Rightarrow>
             if \<not> js_gt n (Fin 0) then Normal st
             else
               (case mtd of
                  Arr techs \<Rightarrow>
                    (case those (map (techniqueEntry p insights) techs) of
                       None \<Rightarrow> Throw TypeError st
                     | Some els \<Rightarrow>
                         Normal (st\<lparr>educationalContent :=
                                      educationalContent st @ [Techniques els]\<rparr>))
                | _ \<Rightarrow> Throw TypeError st)))"

definition tips_part :: "platform \<Rightarrow> jsval \<Rightarrow> page \<Rightarrow> completion" where
  "tips_part p insights st =
     (let vt = getprop_opt insights ''verification_tips'' in
      if \<not> ToBoolean vt then Normal st
      else
        (case vt of
           Arr tips \<Rightarrow>
             if list_all (\<lambda>t. ToString p t \<noteq> None) tips
             then Normal (st\<lparr>educationalContent :=
                               educationalContent st @ [VerificationTips tips]\<rparr>)
             else Throw TypeError st
         | _ \<Rightarrow> Throw TypeError st))"

text \<open>Called with a truthy \<open>insights\<close> only, so reading its properties does not throw.\<close>

definition displayEducationalInsights :: "platform \<Rightarrow> jsval \<Rightarrow> page \<Rightarrow> completion" where
  "displayEducationalInsights p insights st =
     and_then (techniques_part p insights (st\<lparr>educationalContent := []\<rparr>)) (\<lambda>st1.
     and_then (tips_part p insights st1) (\<lambda>st2.
     Normal (st2\<lparr>educationalSection_display := ''block''\<rparr>)))"

subsection \<open>displayResults\<close>

text \<open>The final \<open>scrollIntoView\<close> changes nothing this state records.\<close>

definition displayResults :: "platform \<Rightarrow> jsval \<Rightarrow> page \<Rightarrow> completion" where
  "displayResults p result st =
     (let st1 = st\<lparr>resultsSection_display := ''block''\<rparr> in
      case getprop result ''overall_trust_score'' of
        None \<Rightarrow> Throw TypeError st1
      | Some score \<Rightarrow>
          and_then (updateTrustScore p score (getprop_opt result ''overall_verdict'') st1) (\<lambda>st2.
          and_then (displayClaims p (getprop_opt result ''claims'') st2) (\<lambda>st3.
          if \<not> text_ok p (getprop_opt result ''explanation'') then Throw TypeError st3
          else
            and_then (displaySources p (getprop_opt result ''sources'')
                        (st3\<lparr>explanationText := getprop_opt result ''explanation''\<rparr>)) (\<lambda>st4.
            if ToBoolean (getprop_opt result ''educational_insights'')
            then displayEducationalInsights p (getprop_opt result ''educational_insights'') st4
            else Normal st4))))"

subsection \<open>analyzeText\<close>

text \<open>
  What \<open>await fetch(...)\<close> and \<open>await response.json()\<close> give back: the fetch rejects,
  or a response arrives with a status and a body that parses as JSON or does not.
  \<open>response.ok\<close> is a status from 200 to 299.
\<close>

datatype fetch_outcome = Rejected | Response nat "jsval option"

text \<open>
  An \<open>async\<close> function runs up to its \<open>await\<close>, and its continuation runs as a later
  event. \<open>analyzeText_request\<close> is the part from \<open>showLoading(true)\<close> to the call of
  \<open>fetch\<close>, \<open>analyzeText_response\<close> the part after the \<open>await\<close> (with \<open>catch\<close> and
  \<open>finally\<close>), and \<open>analyzeText\<close> the whole call when no other event comes between.
\<close>

definition analyzeText_request :: "string \<Rightarrow> page \<Rightarrow> page" where
  "analyzeText_request content st =
     (let st1 = showLoading True st in
      st1\<lparr>fetches := fetches st1 @
        [\<lparr>req_url = apiBaseUrl st1 @ ''/check'', req_method = ''POST'',
          req_body = JsonBody (Obj
            [(''content'', Str content),
             (''content_type'', Str ''text''),
             (''language'', Str (languageSelect_value st1)),
             (''include_education'', Bool (includeEducation_checked st1))])\<rparr>]\<rparr>)"

definition analyzeText_catch :: "js_error \<Rightarrow> page \<Rightarrow> page" where
  "analyzeText_catch e st =
     showAlert ''Failed to analyze content. Please try again.'' ''error''
       (st\<lparr>console := console st @ [(''Analysis error:'', e)]\<rparr>)"

definition analyzeText_response :: "platform \<Rightarrow> fetch_outcome \<Rightarrow> page \<Rightarrow> page" where
  "analyzeText_response p outcome st =
     showLoading False
       (case outcome of
          Rejected \<Rightarrow> analyzeText_catch NetworkError st
        | Response status body \<Rightarrow>
            if \<not> (200 \<le> status \<and> status \<le> 299) then analyzeText_catch (HttpError status) st
            else
              (case body of
                 None \<Rightarrow> analyzeText_catch SyntaxError st
               | Some result \<Rightarrow>
                   (case displayResults p result st of
                      Normal st' \<Rightarrow> st'
                    | Throw e st' \<Rightarrow> analyzeText_catch e st')))"

definition analyzeText :: "platform \<Rightarrow> fetch_outcome \<Rightarrow> page \<Rightarrow> page" where
  "analyzeText p outcome st =
     (let content = trim (contentInput_value st) in
      if content = [] then showAlert ''Please enter some content to analyze.'' ''warning'' st
      else analyzeText_response p outcome (analyzeText_request content st))"

subsection \<open>Image upload\<close>

text \<open>\<open>displayImagePreview\<close> starts a \<open>FileReader\<close>; its \<open>onload\<close> callback runs as a
  later event and is \<open>reader_onload\<close>.\<close>

definition displayImagePreview :: "jsfile \<Rightarrow> page \<Rightarrow> page" where
  "displayImagePreview file st = st\<lparr>pending_reads := pending_reads st @ [file]\<rparr>"

definition reader_onload :: "jsfile \<Rightarrow> page \<Rightarrow> page" where
  "reader_onload file st =
     st\<lparr>previewImg_src := Some file,
        imagePreview_display := ''block'',
        analyzeImageBtn_onclick := Some file\<rparr>"

text \<open>The \<open>change\<close> event of the file input; \<open>files\<close> is \<open>event.target.files\<close>.\<close>

definition handleImageUpload :: "jsfile list \<Rightarrow> page \<Rightarrow> page" where
  "handleImageUpload files st =
     (case files of [] \<Rightarrow> st | file # _ \<Rightarrow> displayImagePreview file st)"

text \<open>The \<open>drop\<close> event of the upload area; \<open>files\<close> is \<open>event.dataTransfer.files\<close>.\<close>

definition handleImageDrop :: "jsfile list \<Rightarrow> page \<Rightarrow> page" where
  "handleImageDrop files st =
     (case files of
        [] \<Rightarrow> st
      | file # _ \<Rightarrow>
          if startsWith (file_type file) ''image/''
          then displayImagePreview file (st\<lparr>imageInput_files := files\<rparr>)
          else st)"

definition analyzeImage_request :: "jsfile \<Rightarrow> page \<Rightarrow> page" where
  "analyzeImage_request file st =
     (let st1 = showLoading True st in
      st1\<lparr>fetches := fetches st1 @
        [\<lparr>req_url = apiBaseUrl st1 @ ''/check-image'', req_method = ''POST'',
          req_body = FormBody file\<rparr>]\<rparr>)"

definition analyzeImage_catch :: "js_error \<Rightarrow> page \<Rightarrow> page" where
  "analyzeImage_catch e st =
     showAlert ''Failed to analyze image. Please try again.'' ''error''
       (st\<lparr>console := console st @ [(''Image analysis error:'', e)]\<rparr>)"

definition analyzeImage_response :: "platform \<Rightarrow> fetch_outcome \<Rightarrow> page \<Rightarrow> page" where
  "analyzeImage_response p outcome st =
     showLoading False
       (case outcome of
          Rejected \<Rightarrow> analyzeImage_catch NetworkError st
        | Response status body \<Rightarrow>
            if \<not> (200 \<le> status \<and> status \<le> 299) then analyzeImage_catch (HttpError status) st
            else
              (case body of
                 None \<Rightarrow> analyzeImage_catch SyntaxError st
               | Some result \<Rightarrow>
                   (case displayResults p result (switchTab ''text'' st) of
                      Normal st' \<Rightarrow> st'
                    | Throw e st' \<Rightarrow> analyzeImage_catch e st')))"

definition analyzeImage :: "platform \<Rightarrow> jsfile \<Rightarrow> fetch_outcome \<Rightarrow> page \<Rightarrow> page" where
  "analyzeImage p file outcome st =
     analyzeImage_response p outcome (analyzeImage_request file st)"

text \<open>A click on the "analyze image" button runs the handler installed by
  \<open>reader_onload\<close>, if any.\<close>

definition analyzeImageBtn_click :: "page \<Rightarrow> page" where
  "analyzeImageBtn_click st =
     (case analyzeImageBtn_onclick st of
        None \<Rightarrow> st
      | Some file \<Rightarrow> analyzeImage_request file st)"

section \<open>Well-formed responses\<close>

text \<open>
  The data model of the service's answer, and its shape on the wire: the property
  names are the ones the program reads. A statement about "every VerdictResponse" is a
  statement about the program run on the encoding of any value of these types.
\<close>

record Claim =
  claim_text :: string
  trust_level :: string
  confidence :: jsnum
  claim_explanation :: string
  manipulation_techniques :: "string list"

record TechniqueExplanation =
  description :: string
  detection_tips :: "string list option"

record EducationalInsights =
  manipulation_techniques_detected :: "string list"
  technique_explanations :: "(string \<times> TechniqueExplanation) list"
  verification_tips :: "string list option"

record VerdictResponse =
  overall_trust_score :: jsnum
  overall_verdict :: string
  claims :: "Claim list"
  explanation :: string
  sources :: "string list"
  educational_insights :: "EducationalInsights option"

definition enc_claim :: "Claim \<Rightarrow> jsval" where
  "enc_claim c = Obj
     [(''claim_text'', Str (claim_text c)),
      (''trust_level'', Str (trust_level c)),
      (''confidence'', Num (confidence c)),
      (''explanation'', Str (claim_explanation c)),
      (''manipulation_techniques'', Arr (map Str (manipulation_techniques c)))]"

definition enc_explanation :: "TechniqueExplanation \<Rightarrow> jsval" where
  "enc_explanation e = Obj
     ((''description'', Str (description e)) #
      (case detection_tips e of
         None \<Rightarrow> []
       | Some tips \<Rightarrow> [(''detection_tips'', Arr (map Str tips))]))"

definition enc_insights :: "EducationalInsights \<Rightarrow> jsval" where
  "enc_insights i = Obj
     ((''manipulation_techniques_detected'', Arr (map Str (manipulation_techniques_detected i))) #
      (''technique_explanations'',
         Obj (map (\<lambda>(k, e). (k, enc_explanation e)) (technique_explanations i))) #
      (case verification_tips i of
         None \<Rightarrow> []
       | Some tips \<Rightarrow> [(''verification_tips'', Arr (map Str tips))]))"

definition enc_response :: "VerdictResponse \<Rightarrow> jsval" where
  "enc_response r = Obj
     ((''overall_trust_score'', Num (overall_trust_score r)) #
      (''overall_verdict'', Str (overall_verdict r)) #
      (''claims'', Arr (map enc_claim (claims r))) #
      (''explanation'', Str (explanation r)) #
      (''sources'', Arr (map Str (sources r))) #
      (case educational_insights r of
         None \<Rightarrow> []
       | Some i \<Rightarrow> [(''educational_insights'', enc_insights i)]))"

text \<open>What a well-formed claim, technique and response look like once rendered.\<close>

definition claim_view :: "nat \<Rightarrow> Claim \<Rightarrow> claim_element" where
  "claim_view index c =
     \<lparr>ce_class = ''claim-item '' @ toLowerCase (trust_level c),
      ce_index = index + 1,
      ce_status = trust_level c,
      ce_confidence = Math_round (confidence c),
      ce_text = Str (claim_text c),
      ce_explanation = Str (claim_explanation c),
      ce_techniques = (if manipulation_techniques c = [] then None
                       else Some (map Str (manipulation_techniques c)))\<rparr>"

fun claim_views :: "nat \<Rightarrow> Claim list \<Rightarrow> claim_element list" where
  "claim_views index [] = []"
| "claim_views index (c # cs) = claim_view index c # claim_views (index + 1) cs"

definition technique_view :: "EducationalInsights \<Rightarrow> string \<Rightarrow> technique_element" where
  "technique_view i t =
     (case map_of (technique_explanations i) t of
        None \<Rightarrow>
          \<lparr>te_name = Str t,
           te_description = Str ''Technique used to mislead readers'',
           te_tips = None\<rparr>
      | Some e \<Rightarrow>
          \<lparr>te_name = Str t,
           te_description = Str (if description e = []
                                 then ''Technique used to mislead readers''
                                 else description e),
           te_tips = map_option (map Str) (detection_tips e)\<rparr>)"

definition insights_view :: "EducationalInsights \<Rightarrow> edu_block list" where
  "insights_view i =
     (if manipulation_techniques_detected i = [] then []
      else [Techniques (map (technique_view i) (manipulation_techniques_detected i))]) @
     (case verification_tips i of
        None \<Rightarrow> []
      | Some tips \<Rightarrow> [VerificationTips (map Str tips)])"

definition response_view :: "VerdictResponse \<Rightarrow> page \<Rightarrow> page" where
  "response_view r st =
     (let st1 = st\<lparr>resultsSection_display := ''block'',
                   trustScore_text := Math_round (overall_trust_score r),
                   verdict_text := Str (overall_verdict r),
                   scoreCircle_class := ''score-circle '' @ bucket (overall_trust_score r),
                   verdict_class := ''verdict '' @ bucket (overall_trust_score r),
                   claimsList := claim_views 0 (claims r),
                   explanationText := Str (explanation r),
                   sourcesList := map Str (sources r)\<rparr>
      in case educational_insights r of
           None \<Rightarrow> st1
         | Some i \<Rightarrow> st1\<lparr>educationalContent := insights_view i,
                           educationalSection_display := ''block''\<rparr>)"

text \<open>The three-level ordering of the trust buckets, low < medium < high.\<close>

definition bucket_rank :: "string \<Rightarrow> nat" where
  "bucket_rank b = (if b = ''high'' then 2 else if b = ''medium'' then 1 else 0)"

text \<open>A page before any interaction, and a platform, for the concrete runs below; none
  of those runs converts between a string and a number.\<close>

definition fresh_page :: page where
  "fresh_page =
     \<lparr>apiBaseUrl = ''https://truthguard-ai-nwp9.onrender.com'',
      currentTab = ''text'',
      contentInput_value = [],
      languageSelect_value = ''en'',
      includeEducation_checked = True,
      resultsSection_display = ''none'',
      trustScore_text = Fin 0,
      verdict_text = Str [],
      verdict_class = ''verdict'',
      scoreCircle_class = ''score-circle'',
      claimsList = [],
      explanationText = Str [],
      sourcesList = [],
      educationalContent = [],
      educationalSection_display = ''none'',
      imageInput_files = [],
      previewImg_src = None,
      imagePreview_display = ''none'',
      analyzeImageBtn_onclick = None,
      pending_reads = [],
      loadingModal_display = ''none'',
      alerts = [],
      console = [],
      fetches = []\<rparr>"

definition plain_platform :: platform where
  "plain_platform = \<lparr>StringToNumber = (\<lambda>s. NaN), NumberToString = (\<lambda>n. [])\<rparr>"

text \<open>The parts of the page that rendering a payload never writes: the alerts, the
  loading indicator, the console and the log of network calls.\<close>

definition keeps_frame :: "page \<Rightarrow> page \<Rightarrow> bool" where
  "keeps_frame st st' =
     (alerts st' = alerts st \<and> loadingModal_display st' = loadingModal_display st
      \<and> console st' = console st \<and> fetches st' = fetches st
      \<and> resultsSection_display st' = resultsSection_display st)"

text \<open>The score, the verdict and their colour classes: what \<open>updateTrustScore\<close>
  writes and no later step of rendering touches.\<close>

definition keeps_score :: "page \<Rightarrow> page \<Rightarrow> bool" where
  "keeps_score st st' =
     (trustScore_text st' = trustScore_text st \<and> verdict_text st' = verdict_text st
      \<and> scoreCircle_class st' = scoreCircle_class st \<and> verdict_class st' = verdict_class st)"

section \<open>Rendering a well-formed response\<close>

text \<open>On the encoding of a well-formed response no step throws, and each function
  leaves exactly the view of its argument.\<close>

lemma technique_tags_strs:
  "technique_tags p (Arr (map Str ts)) = Some (if ts = [] then None else Some (map Str ts))"
  by (cases ts) (simp_all add: technique_tags_def js_gt_def list_all_iff)

lemma claimElement_enc: "claimElement p i (enc_claim c) = Some (claim_view i c)"
  by (simp add: claimElement_def enc_claim_def getprop_opt_def technique_tags_strs claim_view_def)

lemma claims_loop_enc:
  "claims_loop p i (map enc_claim cs) st = Normal (st\<lparr>claimsList := claimsList st @ claim_views i cs\<rparr>)"
  by (induction cs arbitrary: i st) (simp_all add: claimElement_enc)

lemma displayClaims_enc:
  "displayClaims p (Arr (map enc_claim cs)) st = Normal (st\<lparr>claimsList := claim_views 0 cs\<rparr>)"
  by (simp add: displayClaims_def claims_loop_enc)

lemma sources_loop_strs:
  "sources_loop p (map Str ss) st = Normal (st\<lparr>sourcesList := sourcesList st @ map Str ss\<rparr>)"
  by (induction ss arbitrary: st) simp_all

lemma displaySources_strs:
  "displaySources p (Arr (map Str ss)) st = Normal (st\<lparr>sourcesList := map Str ss\<rparr>)"
  by (simp add: displaySources_def sources_loop_strs)

lemma updateTrustScore_typed:
  "updateTrustScore p (Num n) (Str v) st =
     Normal (st\<lparr>trustScore_text := Math_round n, verdict_text := Str v,
                scoreCircle_class := ''score-circle '' @ bucket n,
                verdict_class := ''verdict '' @ bucket n\<rparr>)"
  by (simp add: updateTrustScore_def text_ok_def)

lemma join_with_strs: "join_with p sep (map Str ts) \<noteq> None"
  by (induction ts) auto

lemma map_of_enc_explanations:
  "map_of (map (\<lambda>(k, e). (k, enc_explanation e)) xs) t = map_option enc_explanation (map_of xs t)"
  by (induction xs) auto

lemma explanation_entry:
  "getprop_dyn (getprop_opt (enc_insights i) ''technique_explanations'') t =
     Some (case map_of (technique_explanations i) t of
             None \<Rightarrow> Undefined
           | Some e \<Rightarrow> enc_explanation e)"
  by (simp add: enc_insights_def getprop_opt_def map_of_enc_explanations split: option.split)

lemma explanation_description:
  "getprop_opt (enc_explanation e) ''description'' = Str (description e)"
  by (simp add: enc_explanation_def getprop_opt_def)

lemma explanation_tips:
  "getprop_opt (enc_explanation e) ''detection_tips'' =
     (case detection_tips e of None \<Rightarrow> Undefined | Some tips \<Rightarrow> Arr (map Str tips))"
  by (simp add: enc_explanation_def getprop_opt_def split: option.split)

lemma getprop_opt_Undefined: "getprop_opt Undefined k = Undefined"
  by (simp add: getprop_opt_def)

lemma techniqueEntry_enc:
  "techniqueEntry p (enc_insights i) (Str t) = Some (technique_view i t)"
proof (cases "map_of (technique_explanations i) t")
  case None
  then show ?thesis
    by (simp add: techniqueEntry_def explanation_entry getprop_opt_Undefined technique_view_def
        Let_def)
next
  case (Some e)
  then show ?thesis
    by (cases "detection_tips e")
       (simp_all add: techniqueEntry_def explanation_entry explanation_description
          explanation_tips technique_view_def join_with_strs Let_def)
qed

lemma those_entries:
  "those (map (techniqueEntry p (enc_insights i) \<circ> Str) ts) = Some (map (technique_view i) ts)"
  by (induction ts) (simp_all add: techniqueEntry_enc)

lemma techniques_part_enc:
  "techniques_part p (enc_insights i) st =
     Normal (st\<lparr>educationalContent := educationalContent st @
        (if manipulation_techniques_detected i = [] then []
         else [Techniques (map (technique_view i) (manipulation_techniques_detected i))])\<rparr>)"
proof -
  have mtd: "getprop_opt (enc_insights i) ''manipulation_techniques_detected''
             = Arr (map Str (manipulation_techniques_detected i))"
    by (simp add: enc_insights_def getprop_opt_def)
  show ?thesis
    unfolding techniques_part_def mtd
    by (simp add: getprop_opt_def js_gt_def those_entries)
qed

lemma tips_part_enc:
  "tips_part p (enc_insights i) st =
     Normal (st\<lparr>educationalContent := educationalContent st @
        (case verification_tips i of None \<Rightarrow> [] | Some tips \<Rightarrow> [VerificationTips (map Str tips)])\<rparr>)"
  by (cases "verification_tips i")
     (simp_all add: tips_part_def enc_insights_def getprop_opt_def list_all_iff)

lemma displayEducationalInsights_enc:
  "displayEducationalInsights p (enc_insights i) st =
     Normal (st\<lparr>educationalContent := insights_view i, educationalSection_display := ''block''\<rparr>)"
  by (simp add: displayEducationalInsights_def techniques_part_enc tips_part_enc insights_view_def)

lemma displayResults_enc:
  "displayResults p (enc_response r) st = Normal (response_view r st)"
proof (cases "educational_insights r")
  case None
  then show ?thesis
    by (simp add: displayResults_def enc_response_def getprop_opt_def updateTrustScore_typed
        displayClaims_enc displaySources_strs text_ok_def response_view_def)
next
  case (Some i)
  have "ToBoolean (enc_insights i)" by (simp add: enc_insights_def)
  with Some show ?thesis
    by (simp add: displayResults_def enc_response_def getprop_opt_def updateTrustScore_typed
        displayClaims_enc displaySources_strs text_ok_def response_view_def
        displayEducationalInsights_enc)
qed

lemma claim_views_length: "length (claim_views i cs) = length cs"
  by (induction cs arbitrary: i) simp_all

lemma claim_views_nth: "k < length cs \<Longrightarrow> claim_views i cs ! k = claim_view (i + k) (cs ! k)"
proof (induction cs arbitrary: i k)
  case Nil
  then show ?case by simp
next
  case (Cons c cs)
  then show ?case by (cases k) simp_all
qed

lemma response_view_shown:
  "trustScore_text (response_view r st) = Math_round (overall_trust_score r)
   \<and> verdict_text (response_view r st) = Str (overall_verdict r)
   \<and> scoreCircle_class (response_view r st) = ''score-circle '' @ bucket (overall_trust_score r)
   \<and> verdict_class (response_view r st) = ''verdict '' @ bucket (overall_trust_score r)
   \<and> claimsList (response_view r st) = claim_views 0 (claims r)
   \<and> explanationText (response_view r st) = Str (explanation r)
   \<and> sourcesList (response_view r st) = map Str (sources r)"
  by (cases "educational_insights r") (simp_all add: response_view_def)

lemma text_response_enc:
  "analyzeText_response p (Response 200 (Some (enc_response r))) st
     = showLoading False (response_view r st)"
  by (simp add: analyzeText_response_def displayResults_enc)

lemma image_response_enc:
  "analyzeImage_response p (Response 200 (Some (enc_response r))) st
     = showLoading False (response_view r (switchTab ''text'' st))"
  by (simp add: analyzeImage_response_def displayResults_enc)

lemma shown_after_loading_off:
  "trustScore_text (showLoading False (response_view r st)) = Math_round (overall_trust_score r)
   \<and> verdict_text (showLoading False (response_view r st)) = Str (overall_verdict r)
   \<and> scoreCircle_class (showLoading False (response_view r st))
       = ''score-circle '' @ bucket (overall_trust_score r)
   \<and> claimsList (showLoading False (response_view r st)) = claim_views 0 (claims r)
   \<and> explanationText (showLoading False (response_view r st)) = Str (explanation r)
   \<and> sourcesList (showLoading False (response_view r st)) = map Str (sources r)"
  using response_view_shown [of r st] by (simp add: showLoading_def)

section \<open>Rendering an arbitrary payload\<close>

text \<open>Whatever the payload, rendering leaves the alerts, the loading indicator, the
  console and the network log alone; and it throws when \<open>claims\<close> or \<open>sources\<close>
  is not an array.\<close>

lemma keeps_frame_refl: "keeps_frame st st"
  by (simp add: keeps_frame_def)

lemma keeps_frame_trans: "keeps_frame a b \<Longrightarrow> keeps_frame b c \<Longrightarrow> keeps_frame a c"
  by (simp add: keeps_frame_def)

lemma and_then_frame:
  assumes "keeps_frame st (completed c)" and "\<And>s. keeps_frame s (completed (f s))"
  shows "keeps_frame st (completed (and_then c f))"
proof (cases c)
  case (Normal s)
  with assms(1) have "keeps_frame st s" by simp
  with assms(2) [of s] Normal show ?thesis by (auto intro: keeps_frame_trans)
next
  case (Throw e s)
  with assms(1) show ?thesis by simp
qed

lemma updateTrustScore_frame: "keeps_frame st (completed (updateTrustScore p score verdict st))"
  by (simp add: updateTrustScore_def keeps_frame_def Let_def split: option.split)

lemma claims_loop_frame: "keeps_frame st (completed (claims_loop p i cs st))"
proof (induction cs arbitrary: i st)
  case Nil
  then show ?case by (simp add: keeps_frame_refl)
next
  case (Cons c cs)
  show ?case
  proof (cases "claimElement p i c")
    case None
    then show ?thesis by (simp add: keeps_frame_refl)
  next
    case (Some el)
    have "keeps_frame st (st\<lparr>claimsList := claimsList st @ [el]\<rparr>)"
      by (simp add: keeps_frame_def)
    with Cons.IH [where i = "i + 1" and st = "st\<lparr>claimsList := claimsList st @ [el]\<rparr>"] Some
    show ?thesis by (auto intro: keeps_frame_trans)
  qed
qed

lemma displayClaims_frame: "keeps_frame st (completed (displayClaims p v st))"
proof -
  have a: "keeps_frame st (st\<lparr>claimsList := []\<rparr>)" by (simp add: keeps_frame_def)
  show ?thesis
    by (cases v) (auto simp: displayClaims_def a intro: keeps_frame_trans [OF a claims_loop_frame])
qed

lemma sources_loop_frame: "keeps_frame st (completed (sources_loop p ss st))"
proof (induction ss arbitrary: st)
  case Nil
  then show ?case by (simp add: keeps_frame_refl)
next
  case (Cons x xs)
  have "keeps_frame st (st\<lparr>sourcesList := sourcesList st @ [x]\<rparr>)"
    by (simp add: keeps_frame_def)
  with Cons.IH [of "st\<lparr>sourcesList := sourcesList st @ [x]\<rparr>"]
  show ?case by (auto intro: keeps_frame_trans simp: keeps_frame_refl)
qed

lemma displaySources_frame: "keeps_frame st (completed (displaySources p v st))"
proof -
  have a: "keeps_frame st (st\<lparr>sourcesList := []\<rparr>)" by (simp add: keeps_frame_def)
  show ?thesis
    by (cases v) (auto simp: displaySources_def a intro: keeps_frame_trans [OF a sources_loop_frame])
qed

lemma techniques_part_frame: "keeps_frame st (completed (techniques_part p v st))"
  by (simp add: techniques_part_def keeps_frame_def Let_def split: option.split jsval.split)

lemma tips_part_frame: "keeps_frame st (completed (tips_part p v st))"
  by (simp add: tips_part_def keeps_frame_def Let_def split: jsval.split)

lemma displayEducationalInsights_frame:
  "keeps_frame st (completed (displayEducationalInsights p v st))"
proof -
  have a: "keeps_frame st (st\<lparr>educationalContent := []\<rparr>)" by (simp add: keeps_frame_def)
  have b: "keeps_frame s (completed (Normal (s\<lparr>educationalSection_display := ''block''\<rparr>)))" for s
    by (simp add: keeps_frame_def)
  have "keeps_frame (st\<lparr>educationalContent := []\<rparr>)
          (completed (displayEducationalInsights p v st))"
    unfolding displayEducationalInsights_def
    by (intro and_then_frame techniques_part_frame tips_part_frame b)
  with a show ?thesis by (rule keeps_frame_trans)
qed

lemma displayResults_frame:
  "keeps_frame (st\<lparr>resultsSection_display := ''block''\<rparr>) (completed (displayResults p payload st))"
proof (cases "getprop payload ''overall_trust_score''")
  case None
  then show ?thesis by (simp add: displayResults_def keeps_frame_refl)
next
  case (Some score)
  have c: "keeps_frame s (completed
      (if \<not> text_ok p (getprop_opt payload ''explanation'') then Throw TypeError s
       else and_then (displaySources p (getprop_opt payload ''sources'')
                        (s\<lparr>explanationText := getprop_opt payload ''explanation''\<rparr>))
              (\<lambda>st4. if ToBoolean (getprop_opt payload ''educational_insights'')
                 then displayEducationalInsights p (getprop_opt payload ''educational_insights'') st4
                 else Normal st4)))" for s
  proof (cases "text_ok p (getprop_opt payload ''explanation'')")
    case False
    then show ?thesis by (simp add: keeps_frame_refl)
  next
    case True
    have a: "keeps_frame s (s\<lparr>explanationText := getprop_opt payload ''explanation''\<rparr>)"
      by (simp add: keeps_frame_def)
    have "keeps_frame (s\<lparr>explanationText := getprop_opt payload ''explanation''\<rparr>)
      (completed (and_then (displaySources p (getprop_opt payload ''sources'')
                        (s\<lparr>explanationText := getprop_opt payload ''explanation''\<rparr>))
              (\<lambda>st4. if ToBoolean (getprop_opt payload ''educational_insights'')
                 then displayEducationalInsights p (getprop_opt payload ''educational_insights'') st4
                 else Normal st4)))"
      by (intro and_then_frame displaySources_frame)
         (simp add: displayEducationalInsights_frame keeps_frame_refl)
    with a True show ?thesis by (auto intro: keeps_frame_trans)
  qed
  show ?thesis
    unfolding displayResults_def Let_def Some option.case
    by (intro and_then_frame updateTrustScore_frame displayClaims_frame c)
qed

lemma threw_and_then: "threw c \<or> (\<forall>s. threw (f s)) \<Longrightarrow> threw (and_then c f)"
  by (cases c) auto

lemma displayClaims_not_array: "\<not> is_array v \<Longrightarrow> threw (displayClaims p v st)"
  by (cases v) (simp_all add: displayClaims_def)

lemma displayResults_claims_not_array:
  assumes "\<not> is_array (getprop_opt payload ''claims'')"
  shows "threw (displayResults p payload st)"
proof (cases "getprop payload ''overall_trust_score''")
  case None
  then show ?thesis by (simp add: displayResults_def)
next
  case (Some score)
  show ?thesis
    unfolding displayResults_def Let_def Some option.case
    by (intro threw_and_then disjI2 allI disjI1 displayClaims_not_array assms)
qed

lemma displaySources_not_array: "\<not> is_array v \<Longrightarrow> threw (displaySources p v st)"
  by (cases v) (simp_all add: displaySources_def)

lemma displayResults_sources_not_array:
  assumes "\<not> is_array (getprop_opt payload ''sources'')"
  shows "threw (displayResults p payload st)"
proof (cases "getprop payload ''overall_trust_score''")
  case None
  then show ?thesis by (simp add: displayResults_def)
next
  case (Some score)
  have inner: "threw (if \<not> text_ok p (getprop_opt payload ''explanation'') then Throw TypeError s
       else and_then (displaySources p (getprop_opt payload ''sources'')
                        (s\<lparr>explanationText := getprop_opt payload ''explanation''\<rparr>)) f)" for s f
    by (simp add: threw_and_then displaySources_not_array assms)
  show ?thesis
    unfolding displayResults_def Let_def Some option.case
    by (intro threw_and_then disjI2 allI inner)
qed

lemma text_response_after_throw:
  assumes "threw (displayResults p payload st)"
  shows "resultsSection_display (analyzeText_response p (Response 200 (Some payload)) st) = ''block''
    \<and> alerts (analyzeText_response p (Response 200 (Some payload)) st)
        = alerts st @ [(''Failed to analyze content. Please try again.'', ''error'')]
    \<and> loadingModal_display (analyzeText_response p (Response 200 (Some payload)) st) = ''none''"
proof -
  from assms obtain e st' where run: "displayResults p payload st = Throw e st'"
    by (cases "displayResults p payload st") auto
  from displayResults_frame [of st p payload] run
  have "alerts st' = alerts st" "resultsSection_display st' = ''block''"
    by (simp_all add: keeps_frame_def)
  with run show ?thesis
    by (simp add: analyzeText_response_def analyzeText_catch_def showAlert_def showLoading_def)
qed

lemma image_response_after_throw:
  assumes "threw (displayResults p payload (switchTab ''text'' st))"
  shows "resultsSection_display (analyzeImage_response p (Response 200 (Some payload)) st) = ''block''
    \<and> alerts (analyzeImage_response p (Response 200 (Some payload)) st)
        = alerts st @ [(''Failed to analyze image. Please try again.'', ''error'')]
    \<and> loadingModal_display (analyzeImage_response p (Response 200 (Some payload)) st) = ''none''"
proof -
  from assms obtain e st' where run: "displayResults p payload (switchTab ''text'' st) = Throw e st'"
    by (cases "displayResults p payload (switchTab ''text'' st)") auto
  from displayResults_frame [of "switchTab ''text'' st" p payload] run
  have "alerts st' = alerts st" "resultsSection_display st' = ''block''"
    by (simp_all add: keeps_frame_def switchTab_def)
  with run show ?thesis
    by (simp add: analyzeImage_response_def analyzeImage_catch_def showAlert_def showLoading_def)
qed

text \<open>The steps after \<open>updateTrustScore\<close> leave the score, the verdict and their
  colour classes as that call wrote them.\<close>

lemma keeps_score_refl: "keeps_score st st"
  by (simp add: keeps_score_def)

lemma keeps_score_trans: "keeps_score a b \<Longrightarrow> keeps_score b c \<Longrightarrow> keeps_score a c"
  by (simp add: keeps_score_def)

lemma and_then_score:
  assumes "keeps_score st (completed c)" and "\<And>s. keeps_score s (completed (f s))"
  shows "keeps_score st (completed (and_then c f))"
proof (cases c)
  case (Normal s)
  with assms(1) have "keeps_score st s" by simp
  with assms(2) [of s] Normal show ?thesis by (auto intro: keeps_score_trans)
next
  case (Throw e s)
  with assms(1) show ?thesis by simp
qed

lemma claims_loop_score: "keeps_score st (completed (claims_loop p i cs st))"
proof (induction cs arbitrary: i st)
  case Nil
  then show ?case by (simp add: keeps_score_refl)
next
  case (Cons c cs)
  show ?case
  proof (cases "claimElement p i c")
    case None
    then show ?thesis by (simp add: keeps_score_refl)
  next
    case (Some el)
    have "keeps_score st (st\<lparr>claimsList := claimsList st @ [el]\<rparr>)"
      by (simp add: keeps_score_def)
    with Cons.IH [where i = "i + 1" and st = "st\<lparr>claimsList := claimsList st @ [el]\<rparr>"] Some
    show ?thesis by (auto intro: keeps_score_trans)
  qed
qed

lemma displayClaims_score: "keeps_score st (completed (displayClaims p v st))"
proof -
  have a: "keeps_score st (st\<lparr>claimsList := []\<rparr>)" by (simp add: keeps_score_def)
  show ?thesis
    by (cases v) (auto simp: displayClaims_def a intro: keeps_score_trans [OF a claims_loop_score])
qed

lemma sources_loop_score: "keeps_score st (completed (sources_loop p ss st))"
proof (induction ss arbitrary: st)
  case Nil
  then show ?case by (simp add: keeps_score_refl)
next
  case (Cons x xs)
  have "keeps_score st (st\<lparr>sourcesList := sourcesList st @ [x]\<rparr>)"
    by (simp add: keeps_score_def)
  with Cons.IH [of "st\<lparr>sourcesList := sourcesList st @ [x]\<rparr>"]
  show ?case by (auto intro: keeps_score_trans simp: keeps_score_refl)
qed

lemma displaySources_score: "keeps_score st (completed (displaySources p v st))"
proof -
  have a: "keeps_score st (st\<lparr>sourcesList := []\<rparr>)" by (simp add: keeps_score_def)
  show ?thesis
    by (cases v) (auto simp: displaySources_def a intro: keeps_score_trans [OF a sources_loop_score])
qed

lemma techniques_part_score: "keeps_score st (completed (techniques_part p v st))"
  by (simp add: techniques_part_def keeps_score_def Let_def split: option.split jsval.split)

lemma tips_part_score: "keeps_score st (completed (tips_part p v st))"
  by (simp add: tips_part_def keeps_score_def Let_def split: jsval.split)

lemma displayEducationalInsights_score:
  "keeps_score st (completed (displayEducationalInsights p v st))"
proof -
  have a: "keeps_score st (st\<lparr>educationalContent := []\<rparr>)" by (simp add: keeps_score_def)
  have b: "keeps_score s (completed (Normal (s\<lparr>educationalSection_display := ''block''\<rparr>)))" for s
    by (simp add: keeps_score_def)
  have "keeps_score (st\<lparr>educationalContent := []\<rparr>)
          (completed (displayEducationalInsights p v st))"
    unfolding displayEducationalInsights_def
    by (intro and_then_score techniques_part_score tips_part_score b)
  with a show ?thesis by (rule keeps_score_trans)
qed

text \<open>The steps of \<open>displayResults\<close> that follow \<open>updateTrustScore\<close>.\<close>

lemma after_score_kept:
  "keeps_score s (completed
     (and_then (displayClaims p (getprop_opt payload ''claims'') s) (\<lambda>st3.
        if \<not> text_ok p (getprop_opt payload ''explanation'') then Throw TypeError st3
        else and_then (displaySources p (getprop_opt payload ''sources'')
                         (st3\<lparr>explanationText := getprop_opt payload ''explanation''\<rparr>))
               (\<lambda>st4. if ToBoolean (getprop_opt payload ''educational_insights'')
                  then displayEducationalInsights p (getprop_opt payload ''educational_insights'') st4
                  else Normal st4))))"
proof -
  have c: "keeps_score s3 (completed
      (if \<not> text_ok p (getprop_opt payload ''explanation'') then Throw TypeError s3
       else and_then (displaySources p (getprop_opt payload ''sources'')
                        (s3\<lparr>explanationText := getprop_opt payload ''explanation''\<rparr>))
              (\<lambda>st4. if ToBoolean (getprop_opt payload ''educational_insights'')
                 then displayEducationalInsights p (getprop_opt payload ''educational_insights'') st4
                 else Normal st4)))" for s3
  proof (cases "text_ok p (getprop_opt payload ''explanation'')")
    case False
    then show ?thesis by (simp add: keeps_score_refl)
  next
    case True
    have a: "keeps_score s3 (s3\<lparr>explanationText := getprop_opt payload ''explanation''\<rparr>)"
      by (simp add: keeps_score_def)
    have "keeps_score (s3\<lparr>explanationText := getprop_opt payload ''explanation''\<rparr>)
      (completed (and_then (displaySources p (getprop_opt payload ''sources'')
                        (s3\<lparr>explanationText := getprop_opt payload ''explanation''\<rparr>))
              (\<lambda>st4. if ToBoolean (getprop_opt payload ''educational_insights'')
                 then displayEducationalInsights p (getprop_opt payload ''educational_insights'') st4
                 else Normal st4)))"
      by (intro and_then_score displaySources_score)
         (simp add: displayEducationalInsights_score keeps_score_refl)
    with a True show ?thesis by (auto intro: keeps_score_trans)
  qed
  show ?thesis by (intro and_then_score displayClaims_score c)
qed

lemma displayResults_score_written:
  assumes "getprop payload ''overall_trust_score'' = Some score"
    and "ToNumber p score = Some n"
    and "text_ok p (getprop_opt payload ''overall_verdict'')"
  shows "trustScore_text (completed (displayResults p payload st)) = Math_round n
    \<and> verdict_text (completed (displayResults p payload st)) = getprop_opt payload ''overall_verdict''
    \<and> scoreCircle_class (completed (displayResults p payload st)) = ''score-circle '' @ bucket n
    \<and> verdict_class (completed (displayResults p payload st)) = ''verdict '' @ bucket n"
proof -
  let ?st2 = "st\<lparr>resultsSection_display := ''block'', trustScore_text := Math_round n,
      verdict_text := getprop_opt payload ''overall_verdict'',
      scoreCircle_class := ''score-circle '' @ bucket n,
      verdict_class := ''verdict '' @ bucket n\<rparr>"
  have u: "updateTrustScore p score (getprop_opt payload ''overall_verdict'')
             (st\<lparr>resultsSection_display := ''block''\<rparr>) = Normal ?st2"
    using assms(2,3) by (simp add: updateTrustScore_def)
  have "keeps_score ?st2 (completed (displayResults p payload st))"
    unfolding displayResults_def Let_def assms(1) option.case u and_then.simps
    by (rule after_score_kept)
  then show ?thesis by (simp add: keeps_score_def)
qed

lemma displayResults_null_score_kept:
  assumes "getprop payload ''overall_trust_score'' = None"
  shows "keeps_score st (completed (displayResults p payload st))"
  using assms by (simp add: displayResults_def keeps_score_def)

lemma text_response_keeps_score:
  "keeps_score (completed (displayResults p payload st))
     (analyzeText_response p (Response 200 (Some payload)) st)"
  by (cases "displayResults p payload st")
     (simp_all add: analyzeText_response_def analyzeText_catch_def showAlert_def showLoading_def
        keeps_score_def)

lemma image_response_keeps_score:
  "keeps_score (completed (displayResults p payload (switchTab ''text'' st)))
     (analyzeImage_response p (Response 200 (Some payload)) st)"
  by (cases "displayResults p payload (switchTab ''text'' st)")
     (simp_all add: analyzeImage_response_def analyzeImage_catch_def showAlert_def showLoading_def
        keeps_score_def)

subsection \<open>Trimming\<close>

lemma js_whitespace_trim: "list_all js_whitespace s \<Longrightarrow> trim s = []"
  by (auto simp: trim_def list_all_iff dest: set_dropWhileD)

lemma trim_empty_iff: "trim s = [] \<longleftrightarrow> list_all js_whitespace s"
proof
  assume "trim s = []"
  then have "dropWhile js_whitespace (rev (dropWhile js_whitespace s)) = []"
    by (simp add: trim_def)
  then have "\<forall>c \<in> set (dropWhile js_whitespace s). js_whitespace c"
    by simp
  then have "dropWhile js_whitespace s = []"
    by (metis hd_dropWhile list.set_sel(1))
  then show "list_all js_whitespace s" by (simp add: list_all_iff)
qed (rule js_whitespace_trim)

section \<open>Trust score\<close>

text \<open>
  C3. The colour coding of the trust score is total and monotonic. For every score
  \<open>s\<close> (any JavaScript number) \<open>updateTrustScore\<close> marks the score circle and the
  verdict with \<open>bucket s\<close>, which is one of high, medium, low; a score \<open>>= 80\<close> is
  high, one with \<open>60 <= score < 80\<close> is medium, one \<open>< 60\<close> is low; and
  \<open>s1 <= s2\<close> implies \<open>bucket s1 \<le> bucket s2\<close> in the order low < medium < high.
\<close>

theorem bucket_total_monotonic:
  "scoreCircle_class (completed (updateTrustScore p (Num s) (Str v) st)) = ''score-circle '' @ bucket s
   \<and> verdict_class (completed (updateTrustScore p (Num s) (Str v) st)) = ''verdict '' @ bucket s
   \<and> bucket s \<in> {''high'', ''medium'', ''low''}
   \<and> (js_ge a (Fin 80) \<longrightarrow> bucket a = ''high'')
   \<and> (js_ge b (Fin 60) \<and> js_lt b (Fin 80) \<longrightarrow> bucket b = ''medium'')
   \<and> (js_lt c (Fin 60) \<longrightarrow> bucket c = ''low'')
   \<and> (js_le s1 s2 \<longrightarrow> bucket_rank (bucket s1) \<le> bucket_rank (bucket s2))"
proof -
  have mono: "js_le s1 s2 \<longrightarrow> bucket_rank (bucket s1) \<le> bucket_rank (bucket s2)"
    by (cases s1; cases s2) (auto simp: js_le_def js_ge_def bucket_def bucket_rank_def)
  have hi: "js_ge a (Fin 80) \<longrightarrow> bucket a = ''high''"
    by (simp add: bucket_def)
  have med: "js_ge b (Fin 60) \<and> js_lt b (Fin 80) \<longrightarrow> bucket b = ''medium''"
    by (cases b) (auto simp: bucket_def js_ge_def)
  have lo: "js_lt c (Fin 60) \<longrightarrow> bucket c = ''low''"
    by (cases c) (auto simp: bucket_def js_ge_def)
  have tot: "bucket s \<in> {''high'', ''medium'', ''low''}"
    by (simp add: bucket_def)
  show ?thesis using mono hi med lo tot by (simp add: updateTrustScore_typed)
qed

theorem bucket_total_monotonic_witness:
  "js_ge (Fin 92) (Fin 80) \<and> bucket (Fin 92) = ''high''
   \<and> js_ge (Fin 70) (Fin 60) \<and> js_lt (Fin 70) (Fin 80) \<and> bucket (Fin 70) = ''medium''
   \<and> js_lt (Fin 12) (Fin 60) \<and> bucket (Fin 12) = ''low''
   \<and> js_le (Fin 59) (Fin 80) \<and> bucket_rank (bucket (Fin 59)) \<le> bucket_rank (bucket (Fin 80))
   \<and> scoreCircle_class (completed (updateTrustScore plain_platform (Num (Fin 92)) (Str ''Verified'') fresh_page))
       = ''score-circle high''"
  using bucket_total_monotonic [of plain_platform "Fin 92" "''Verified''" fresh_page "Fin 92" "Fin 70" "Fin 12" "Fin 59" "Fin 80"]
  by (simp add: js_ge_def js_le_def bucket_def)

text \<open>
  C1, as stated, fails: a response with \<open>overall_trust_score = 150\<close> is rendered with
  the score 150 in the score element, not 100.
\<close>

theorem score_150_stored_unclamped:
  "trustScore_text (completed (displayResults plain_platform
      (enc_response \<lparr>overall_trust_score = Fin 150, overall_verdict = ''Verified'',
         claims = [], explanation = ''ok'', sources = [], educational_insights = None\<rparr>)
      fresh_page)) = Fin 150
   \<and> trustScore_text (completed (displayResults plain_platform
      (enc_response \<lparr>overall_trust_score = Fin 150, overall_verdict = ''Verified'',
         claims = [], explanation = ''ok'', sources = [], educational_insights = None\<rparr>)
      fresh_page)) \<noteq> Fin 100"
  by (simp add: displayResults_enc response_view_def)

text \<open>
  C1, amended. An out-of-range score is neither clamped nor rejected: the response is
  rendered, the score element receives \<open>Math.round\<close> of the raw score and the bucket is
  taken from the raw score. A score above 100 lands in bucket high with a stored score
  of at least 100 (above 100 from 100.5 on), a score below 0 in bucket low with a stored
  score of at most 0 (below 0 under -0.5).
\<close>

theorem out_of_range_score_shown_unclamped:
  assumes "overall_trust_score r = Fin x"
  shows "displayResults p (enc_response r) st = Normal (response_view r st)
         \<and> trustScore_text (response_view r st) = Fin (of_int \<lfloor>x + 1 / 2\<rfloor>)
         \<and> scoreCircle_class (response_view r st) = ''score-circle '' @ bucket (Fin x)
         \<and> (100 < x \<longrightarrow> bucket (Fin x) = ''high'' \<and> 100 \<le> \<lfloor>x + 1 / 2\<rfloor>)
         \<and> (201 / 2 \<le> x \<longrightarrow> 100 < \<lfloor>x + 1 / 2\<rfloor>)
         \<and> (x < 0 \<longrightarrow> bucket (Fin x) = ''low'' \<and> \<lfloor>x + 1 / 2\<rfloor> \<le> 0)
         \<and> (x < - 1 / 2 \<longrightarrow> \<lfloor>x + 1 / 2\<rfloor> < 0)"
proof -
  have view: "trustScore_text (response_view r st) = Fin (of_int \<lfloor>x + 1 / 2\<rfloor>)
      \<and> scoreCircle_class (response_view r st) = ''score-circle '' @ bucket (Fin x)"
    using assms by (cases "educational_insights r") (simp_all add: response_view_def)
  have hi: "100 < x \<longrightarrow> bucket (Fin x) = ''high'' \<and> 100 \<le> \<lfloor>x + 1 / 2\<rfloor>"
    by (auto simp: bucket_def js_ge_def)
  have hi2: "201 / 2 \<le> x \<longrightarrow> 100 < \<lfloor>x + 1 / 2\<rfloor>" by linarith
  have lo: "x < 0 \<longrightarrow> bucket (Fin x) = ''low'' \<and> \<lfloor>x + 1 / 2\<rfloor> \<le> 0"
    by (auto simp: bucket_def js_ge_def)
  have lo2: "x < - 1 / 2 \<longrightarrow> \<lfloor>x + 1 / 2\<rfloor> < 0" by linarith
  show ?thesis using view hi hi2 lo lo2 by (simp add: displayResults_enc)
qed

theorem out_of_range_score_shown_unclamped_witness:
  "overall_trust_score \<lparr>overall_trust_score = Fin 150, overall_verdict = ''Verified'',
         claims = [], explanation = ''ok'', sources = [], educational_insights = None\<rparr> = Fin 150
   \<and> threw (displayResults plain_platform
         (enc_response \<lparr>overall_trust_score = Fin 150, overall_verdict = ''Verified'',
            claims = [], explanation = ''ok'', sources = [], educational_insights = None\<rparr>)
         fresh_page) = False
   \<and> trustScore_text (completed (displayResults plain_platform
         (enc_response \<lparr>overall_trust_score = Fin 150, overall_verdict = ''Verified'',
            claims = [], explanation = ''ok'', sources = [], educational_insights = None\<rparr>)
         fresh_page)) = Fin 150
   \<and> scoreCircle_class (completed (displayResults plain_platform
         (enc_response \<lparr>overall_trust_score = Fin 150, overall_verdict = ''Verified'',
            claims = [], explanation = ''ok'', sources = [], educational_insights = None\<rparr>)
         fresh_page)) = ''score-circle high''
   \<and> (100::real) < 150 \<and> bucket (Fin 150) = ''high'' \<and> (201::real) / 2 \<le> 150
   \<and> (100::int) < \<lfloor>(150::real) + 1 / 2\<rfloor>"
  using out_of_range_score_shown_unclamped
    [of "\<lparr>overall_trust_score = Fin 150, overall_verdict = ''Verified'',
         claims = [], explanation = ''ok'', sources = [], educational_insights = None\<rparr>"
        150 plain_platform fresh_page]
  by simp

section \<open>Text submission\<close>

text \<open>
  C2. A text input that is empty or consists of white space only is refused locally:
  \<open>analyzeText\<close> shows the warning "Please enter some content to analyze." and does
  nothing else, so no network call is made (the log of network calls is unchanged,
  zero calls are added).
\<close>

theorem blank_text_rejected_before_network:
  assumes "list_all js_whitespace (contentInput_value st)"
  shows "analyzeText p outcome st = showAlert ''Please enter some content to analyze.'' ''warning'' st
         \<and> alerts (analyzeText p outcome st) = alerts st @ [(''Please enter some content to analyze.'', ''warning'')]
         \<and> fetches (analyzeText p outcome st) = fetches st
         \<and> length (fetches (analyzeText p outcome st)) - length (fetches st) = 0"
  using js_whitespace_trim [OF assms] by (simp add: analyzeText_def showAlert_def)

theorem blank_text_rejected_before_network_witness:
  "list_all js_whitespace (contentInput_value (fresh_page\<lparr>contentInput_value := [CHR 0x20, CHR 0x09, CHR 0x0A]\<rparr>))
   \<and> fetches (analyzeText plain_platform Rejected (fresh_page\<lparr>contentInput_value := [CHR 0x20, CHR 0x09, CHR 0x0A]\<rparr>)) = []
   \<and> alerts (analyzeText plain_platform Rejected (fresh_page\<lparr>contentInput_value := [CHR 0x20, CHR 0x09, CHR 0x0A]\<rparr>))
       = [(''Please enter some content to analyze.'', ''warning'')]"
proof -
  have h: "list_all js_whitespace (contentInput_value (fresh_page\<lparr>contentInput_value := [CHR 0x20, CHR 0x09, CHR 0x0A]\<rparr>))"
    by (simp add: js_whitespace_def)
  show ?thesis
    using h blank_text_rejected_before_network [OF h, of plain_platform Rejected]
    by (simp add: fresh_page_def showAlert_def)
qed

section \<open>Completion of a request\<close>

text \<open>
  C10. Once a text or image analysis has been submitted, its completion always turns
  the loading indicator off, whatever the outcome: a rejected fetch, an HTTP error
  status, a body that does not parse, a payload that renders, or one whose rendering
  throws. The indicator was switched on when the request was issued.
\<close>

theorem loading_off_after_completion:
  "loadingModal_display (analyzeText_request content st) = ''flex''
   \<and> loadingModal_display (analyzeText_response p outcome st') = ''none''
   \<and> loadingModal_display (analyzeImage_request file st) = ''flex''
   \<and> loadingModal_display (analyzeImage_response p outcome st') = ''none''
   \<and> (trim (contentInput_value st) \<noteq> [] \<longrightarrow>
        loadingModal_display (analyzeText p outcome st) = ''none'')
   \<and> loadingModal_display (analyzeImage p file outcome st) = ''none''"
  by (simp add: analyzeText_request_def analyzeImage_request_def analyzeText_response_def
      analyzeImage_response_def analyzeText_def analyzeImage_def showLoading_def Let_def)

theorem loading_off_after_completion_witness:
  "trim (contentInput_value (fresh_page\<lparr>contentInput_value := ''Is this true?''\<rparr>)) \<noteq> []
   \<and> loadingModal_display (analyzeText plain_platform Rejected
        (fresh_page\<lparr>contentInput_value := ''Is this true?''\<rparr>)) = ''none''
   \<and> loadingModal_display (analyzeText plain_platform (Response 500 None)
        (fresh_page\<lparr>contentInput_value := ''Is this true?''\<rparr>)) = ''none''
   \<and> loadingModal_display (analyzeText plain_platform (Response 200 None)
        (fresh_page\<lparr>contentInput_value := ''Is this true?''\<rparr>)) = ''none''
   \<and> loadingModal_display (analyzeText plain_platform (Response 200 (Some (Obj [])))
        (fresh_page\<lparr>contentInput_value := ''Is this true?''\<rparr>)) = ''none''"
proof -
  have h: "trim (contentInput_value (fresh_page\<lparr>contentInput_value := ''Is this true?''\<rparr>)) \<noteq> []"
    by (simp add: trim_def js_whitespace_def)
  note th = loading_off_after_completion [of "[]" "fresh_page\<lparr>contentInput_value := ''Is this true?''\<rparr>"
      plain_platform _ fresh_page "\<lparr>file_name = [], file_type = []\<rparr>",
      THEN conjunct2, THEN conjunct2, THEN conjunct2, THEN conjunct2, THEN conjunct1, rule_format, OF h]
  show ?thesis
    using h th [of Rejected] th [of "Response 500 None"] th [of "Response 200 None"]
      th [of "Response 200 (Some (Obj []))"]
    by simp
qed

text \<open>
  C8, as stated, fails: with two submissions whose responses arrive in the opposite
  order, the page ends up showing the first request's result, not the second's.
\<close>

theorem late_first_response_overwrites:
  "trustScore_text
     (analyzeText_response plain_platform
        (Response 200 (Some (enc_response
           \<lparr>overall_trust_score = Fin 10, overall_verdict = ''False'', claims = [],
             explanation = ''first'', sources = [], educational_insights = None\<rparr>)))
     (analyzeText_response plain_platform
        (Response 200 (Some (enc_response
           \<lparr>overall_trust_score = Fin 92, overall_verdict = ''Verified'', claims = [],
             explanation = ''second'', sources = [], educational_insights = None\<rparr>)))
     (analyzeText_request ''second text'' (analyzeText_request ''first text'' fresh_page))))
   = Fin 10
   \<and> explanationText
     (analyzeText_response plain_platform
        (Response 200 (Some (enc_response
           \<lparr>overall_trust_score = Fin 10, overall_verdict = ''False'', claims = [],
             explanation = ''first'', sources = [], educational_insights = None\<rparr>)))
     (analyzeText_response plain_platform
        (Response 200 (Some (enc_response
           \<lparr>overall_trust_score = Fin 92, overall_verdict = ''Verified'', claims = [],
             explanation = ''second'', sources = [], educational_insights = None\<rparr>)))
     (analyzeText_request ''second text'' (analyzeText_request ''first text'' fresh_page))))
   = Str ''first''"
  by (simp add: analyzeText_response_def displayResults_enc response_view_def showLoading_def)

text \<open>
  C8, amended. The program keeps no session identity and has no stale-response guard:
  every response is rendered when it arrives. When the first request's response
  arrives after the second's, the score, verdict, bucket, claims, explanation and
  sources shown at the end are those of the first request's response (the one that
  arrived last), on the text path and on the image path alike.
\<close>

theorem last_arrival_wins:
  "trustScore_text (analyzeText_response p (Response 200 (Some (enc_response r1)))
      (analyzeText_response p (Response 200 (Some (enc_response r2)))
         (analyzeText_request c2 (analyzeText_request c1 st))))
     = Math_round (overall_trust_score r1)
   \<and> verdict_text (analyzeText_response p (Response 200 (Some (enc_response r1)))
      (analyzeText_response p (Response 200 (Some (enc_response r2)))
         (analyzeText_request c2 (analyzeText_request c1 st))))
     = Str (overall_verdict r1)
   \<and> scoreCircle_class (analyzeText_response p (Response 200 (Some (enc_response r1)))
      (analyzeText_response p (Response 200 (Some (enc_response r2)))
         (analyzeText_request c2 (analyzeText_request c1 st))))
     = ''score-circle '' @ bucket (overall_trust_score r1)
   \<and> claimsList (analyzeText_response p (Response 200 (Some (enc_response r1)))
      (analyzeText_response p (Response 200 (Some (enc_response r2)))
         (analyzeText_request c2 (analyzeText_request c1 st))))
     = claim_views 0 (claims r1)
   \<and> explanationText (analyzeText_response p (Response 200 (Some (enc_response r1)))
      (analyzeText_response p (Response 200 (Some (enc_response r2)))
         (analyzeText_request c2 (analyzeText_request c1 st))))
     = Str (explanation r1)
   \<and> sourcesList (analyzeText_response p (Response 200 (Some (enc_response r1)))
      (analyzeText_response p (Response 200 (Some (enc_response r2)))
         (analyzeText_request c2 (analyzeText_request c1 st))))
     = map Str (sources r1)
   \<and> trustScore_text (analyzeImage_response p (Response 200 (Some (enc_response r1)))
      (analyzeImage_response p (Response 200 (Some (enc_response r2)))
         (analyzeImage_request f2 (analyzeImage_request f1 st))))
     = Math_round (overall_trust_score r1)
   \<and> claimsList (analyzeImage_response p (Response 200 (Some (enc_response r1)))
      (analyzeImage_response p (Response 200 (Some (enc_response r2)))
         (analyzeImage_request f2 (analyzeImage_request f1 st))))
     = claim_views 0 (claims r1)"
  unfolding text_response_enc image_response_enc
  by (simp add: shown_after_loading_off)

theorem last_arrival_wins_witness:
  "verdict_text
     (analyzeText_response plain_platform
        (Response 200 (Some (enc_response
           \<lparr>overall_trust_score = Fin 35, overall_verdict = ''Misleading'', claims = [],
             explanation = ''older request'', sources = [''https://pib.gov.in''],
             educational_insights = None\<rparr>)))
     (analyzeText_response plain_platform
        (Response 200 (Some (enc_response
           \<lparr>overall_trust_score = Fin 88, overall_verdict = ''Verified'', claims = [],
             explanation = ''newer request'', sources = [], educational_insights = None\<rparr>)))
     (analyzeText_request ''b'' (analyzeText_request ''a'' fresh_page))))
   = Str ''Misleading''"
  using last_arrival_wins [of plain_platform
      "\<lparr>overall_trust_score = Fin 35, overall_verdict = ''Misleading'', claims = [],
         explanation = ''older request'', sources = [''https://pib.gov.in''],
         educational_insights = None\<rparr>"
      "\<lparr>overall_trust_score = Fin 88, overall_verdict = ''Verified'', claims = [],
         explanation = ''newer request'', sources = [], educational_insights = None\<rparr>"
      "''b''" "''a''" fresh_page]
  by simp

section \<open>Malformed payloads\<close>

text \<open>
  C7, as stated, fails: on the payload \<open>{}\<close> the result section is made visible and
  the score element shows \<open>NaN\<close> in bucket low before the failure alert appears; and
  a payload that only lacks \<open>explanation\<close> is rendered with no failure at all.
\<close>

theorem malformed_payload_partly_rendered:
  "resultsSection_display (analyzeText_response plain_platform (Response 200 (Some (Obj [])))
      (analyzeText_request ''hello'' fresh_page)) = ''block''
   \<and> trustScore_text (analyzeText_response plain_platform (Response 200 (Some (Obj [])))
      (analyzeText_request ''hello'' fresh_page)) = NaN
   \<and> scoreCircle_class (analyzeText_response plain_platform (Response 200 (Some (Obj [])))
      (analyzeText_request ''hello'' fresh_page)) = ''score-circle low''
   \<and> alerts (analyzeText_response plain_platform (Response 200 (Some (Obj [])))
      (analyzeText_request ''hello'' fresh_page))
      = [(''Failed to analyze content. Please try again.'', ''error'')]
   \<and> alerts (analyzeText_response plain_platform
        (Response 200 (Some (Obj [(''overall_trust_score'', Num (Fin 92)),
                                  (''overall_verdict'', Str ''Verified''),
                                  (''claims'', Arr []),
                                  (''sources'', Arr [])])))
      (analyzeText_request ''hello'' fresh_page)) = []
   \<and> explanationText (analyzeText_response plain_platform
        (Response 200 (Some (Obj [(''overall_trust_score'', Num (Fin 92)),
                                  (''overall_verdict'', Str ''Verified''),
                                  (''claims'', Arr []),
                                  (''sources'', Arr [])])))
      (analyzeText_request ''hello'' fresh_page)) = Undefined"
  by (simp add: analyzeText_response_def analyzeText_request_def displayResults_def
      updateTrustScore_def text_ok_def displayClaims_def displaySources_def getprop_opt_def
      analyzeText_catch_def showAlert_def showLoading_def fresh_page_def bucket_def js_ge_def)

text \<open>
  C7, amended. There is no schema validation and no \<open>SchemaError\<close>: a payload is
  rendered step by step. When \<open>claims\<close> or \<open>sources\<close> is missing or is not an array
  (this includes a payload that is \<open>null\<close> or not an object), rendering throws
  part-way; the generic failure alert is then shown and the loading indicator turned
  off, but the result section has already been made visible. When the payload's
  \<open>overall_trust_score\<close> converts to a number and its \<open>overall_verdict\<close> to text,
  the rounded score, the verdict and the bucket of that payload have been written
  before the throw and stay on the page; when the payload is \<open>null\<close>, the throw comes
  first and the score, verdict and bucket shown before stay.
\<close>

theorem throwing_payload_partly_rendered:
  assumes "\<not> is_array (getprop_opt payload ''claims'') \<or> \<not> is_array (getprop_opt payload ''sources'')"
  shows "threw (displayResults p payload st)
   \<and> resultsSection_display (analyzeText_response p (Response 200 (Some payload)) st) = ''block''
   \<and> alerts (analyzeText_response p (Response 200 (Some payload)) st)
       = alerts st @ [(''Failed to analyze content. Please try again.'', ''error'')]
   \<and> loadingModal_display (analyzeText_response p (Response 200 (Some payload)) st) = ''none''
   \<and> resultsSection_display (analyzeImage_response p (Response 200 (Some payload)) st) = ''block''
   \<and> alerts (analyzeImage_response p (Response 200 (Some payload)) st)
       = alerts st @ [(''Failed to analyze image. Please try again.'', ''error'')]
   \<and> loadingModal_display (analyzeImage_response p (Response 200 (Some payload)) st) = ''none''
   \<and> (getprop payload ''overall_trust_score'' = Some score \<and> ToNumber p score = Some n
        \<and> text_ok p (getprop_opt payload ''overall_verdict'') \<longrightarrow>
        trustScore_text (analyzeText_response p (Response 200 (Some payload)) st) = Math_round n
        \<and> verdict_text (analyzeText_response p (Response 200 (Some payload)) st)
            = getprop_opt payload ''overall_verdict''
        \<and> scoreCircle_class (analyzeText_response p (Response 200 (Some payload)) st)
            = ''score-circle '' @ bucket n
        \<and> verdict_class (analyzeText_response p (Response 200 (Some payload)) st)
            = ''verdict '' @ bucket n
        \<and> trustScore_text (analyzeImage_response p (Response 200 (Some payload)) st) = Math_round n
        \<and> verdict_text (analyzeImage_response p (Response 200 (Some payload)) st)
            = getprop_opt payload ''overall_verdict''
        \<and> scoreCircle_class (analyzeImage_response p (Response 200 (Some payload)) st)
            = ''score-circle '' @ bucket n
        \<and> verdict_class (analyzeImage_response p (Response 200 (Some payload)) st)
            = ''verdict '' @ bucket n)
   \<and> (getprop payload ''overall_trust_score'' = None \<longrightarrow>
        keeps_score st (analyzeText_response p (Response 200 (Some payload)) st)
        \<and> keeps_score st (analyzeImage_response p (Response 200 (Some payload)) st))"
proof -
  have t: "threw (displayResults p payload s)" for s
    using assms displayResults_claims_not_array displayResults_sources_not_array by blast
  have basics: "threw (displayResults p payload st)
   \<and> resultsSection_display (analyzeText_response p (Response 200 (Some payload)) st) = ''block''
   \<and> alerts (analyzeText_response p (Response 200 (Some payload)) st)
       = alerts st @ [(''Failed to analyze content. Please try again.'', ''error'')]
   \<and> loadingModal_display (analyzeText_response p (Response 200 (Some payload)) st) = ''none''
   \<and> resultsSection_display (analyzeImage_response p (Response 200 (Some payload)) st) = ''block''
   \<and> alerts (analyzeImage_response p (Response 200 (Some payload)) st)
       = alerts st @ [(''Failed to analyze image. Please try again.'', ''error'')]
   \<and> loadingModal_display (analyzeImage_response p (Response 200 (Some payload)) st) = ''none''"
    using t [of st] text_response_after_throw [OF t [of st]]
      image_response_after_throw [OF t [of "switchTab ''text'' st"]]
    by simp
  have written: "trustScore_text (analyzeText_response p (Response 200 (Some payload)) st) = Math_round n
        \<and> verdict_text (analyzeText_response p (Response 200 (Some payload)) st)
            = getprop_opt payload ''overall_verdict''
        \<and> scoreCircle_class (analyzeText_response p (Response 200 (Some payload)) st)
            = ''score-circle '' @ bucket n
        \<and> verdict_class (analyzeText_response p (Response 200 (Some payload)) st)
            = ''verdict '' @ bucket n
        \<and> trustScore_text (analyzeImage_response p (Response 200 (Some payload)) st) = Math_round n
        \<and> verdict_text (analyzeImage_response p (Response 200 (Some payload)) st)
            = getprop_opt payload ''overall_verdict''
        \<and> scoreCircle_class (analyzeImage_response p (Response 200 (Some payload)) st)
            = ''score-circle '' @ bucket n
        \<and> verdict_class (analyzeImage_response p (Response 200 (Some payload)) st)
            = ''verdict '' @ bucket n"
    if h: "getprop payload ''overall_trust_score'' = Some score \<and> ToNumber p score = Some n
        \<and> text_ok p (getprop_opt payload ''overall_verdict'')"
  proof -
    from h have a: "getprop payload ''overall_trust_score'' = Some score"
      and b: "ToNumber p score = Some n"
      and c: "text_ok p (getprop_opt payload ''overall_verdict'')" by simp_all
    show ?thesis
      using displayResults_score_written [OF a b c, of st]
        displayResults_score_written [OF a b c, of "switchTab ''text'' st"]
        text_response_keeps_score [of p payload st] image_response_keeps_score [of p payload st]
      by (simp add: keeps_score_def)
  qed
  have kept: "keeps_score st (analyzeText_response p (Response 200 (Some payload)) st)
        \<and> keeps_score st (analyzeImage_response p (Response 200 (Some payload)) st)"
    if h: "getprop payload ''overall_trust_score'' = None"
    using displayResults_null_score_kept [OF h, of st p]
      displayResults_null_score_kept [OF h, of "switchTab ''text'' st" p]
      text_response_keeps_score [of p payload st] image_response_keeps_score [of p payload st]
    by (simp add: keeps_score_def switchTab_def)
  from basics written kept show ?thesis by blast
qed

theorem throwing_payload_partly_rendered_witness:
  "\<not> is_array (getprop_opt (Obj [(''overall_trust_score'', Num (Fin 55)),
                                   (''overall_verdict'', Str ''Unverified'')]) ''claims'')
   \<and> getprop (Obj [(''overall_trust_score'', Num (Fin 55)),
                    (''overall_verdict'', Str ''Unverified'')]) ''overall_trust_score''
       = Some (Num (Fin 55))
   \<and> ToNumber plain_platform (Num (Fin 55)) = Some (Fin 55)
   \<and> text_ok plain_platform (getprop_opt (Obj [(''overall_trust_score'', Num (Fin 55)),
                    (''overall_verdict'', Str ''Unverified'')]) ''overall_verdict'')
   \<and> threw (displayResults plain_platform
        (Obj [(''overall_trust_score'', Num (Fin 55)), (''overall_verdict'', Str ''Unverified'')])
        fresh_page)
   \<and> alerts (analyzeText_response plain_platform
        (Response 200 (Some (Obj [(''overall_trust_score'', Num (Fin 55)),
                                  (''overall_verdict'', Str ''Unverified'')])))
        fresh_page) = [(''Failed to analyze content. Please try again.'', ''error'')]
   \<and> resultsSection_display (analyzeText_response plain_platform
        (Response 200 (Some (Obj [(''overall_trust_score'', Num (Fin 55)),
                                  (''overall_verdict'', Str ''Unverified'')])))
        fresh_page) = ''block''
   \<and> trustScore_text (analyzeText_response plain_platform
        (Response 200 (Some (Obj [(''overall_trust_score'', Num (Fin 55)),
                                  (''overall_verdict'', Str ''Unverified'')])))
        fresh_page) = Fin 55
   \<and> verdict_text (analyzeText_response plain_platform
        (Response 200 (Some (Obj [(''overall_trust_score'', Num (Fin 55)),
                                  (''overall_verdict'', Str ''Unverified'')])))
        fresh_page) = Str ''Unverified''
   \<and> scoreCircle_class (analyzeText_response plain_platform
        (Response 200 (Some (Obj [(''overall_trust_score'', Num (Fin 55)),
                                  (''overall_verdict'', Str ''Unverified'')])))
        fresh_page) = ''score-circle low''
   \<and> keeps_score fresh_page (analyzeText_response plain_platform (Response 200 (Some Null))
        fresh_page)
   \<and> alerts (analyzeText_response plain_platform (Response 200 (Some Null)) fresh_page)
       = [(''Failed to analyze content. Please try again.'', ''error'')]"
proof -
  let ?payload = "Obj [(''overall_trust_score'', Num (Fin 55)), (''overall_verdict'', Str ''Unverified'')]"
  have h: "\<not> is_array (getprop_opt ?payload ''claims'') \<or> \<not> is_array (getprop_opt ?payload ''sources'')"
    by (simp add: getprop_opt_def)
  have c: "\<not> is_array (getprop_opt ?payload ''claims'')"
    by (simp add: getprop_opt_def)
  have w: "getprop ?payload ''overall_trust_score'' = Some (Num (Fin 55))
      \<and> ToNumber plain_platform (Num (Fin 55)) = Some (Fin 55)
      \<and> text_ok plain_platform (getprop_opt ?payload ''overall_verdict'')"
    by (simp add: getprop_opt_def text_ok_def)
  have hn: "\<not> is_array (getprop_opt Null ''claims'') \<or> \<not> is_array (getprop_opt Null ''sources'')"
    by (simp add: getprop_opt_def)
  have n: "getprop Null ''overall_trust_score'' = None" by simp
  note a = throwing_payload_partly_rendered [OF h, of plain_platform fresh_page "Num (Fin 55)" "Fin 55"]
  note b = throwing_payload_partly_rendered [OF hn, of plain_platform fresh_page "Num (Fin 55)" "Fin 55"]
  show ?thesis
    using c w n a b
    by (simp add: fresh_page_def getprop_opt_def bucket_def js_ge_def)
qed

section \<open>Claim list\<close>

text \<open>
  C6. The rendered claim list keeps the order of the response: it has as many elements
  as the response has claims, and its i-th element is the rendering of the i-th claim
  (numbered i + 1, with that claim's text, trust level, explanation and rounded
  confidence). This holds for every list of claims, so for every permutation of one.
\<close>

theorem claims_order_preserved:
  "displayResults p (enc_response r) st = Normal (response_view r st)
   \<and> length (claimsList (response_view r st)) = length (claims r)
   \<and> (\<forall>i < length (claims r).
         claimsList (response_view r st) ! i = claim_view i (claims r ! i)
         \<and> ce_index (claimsList (response_view r st) ! i) = i + 1
         \<and> ce_text (claimsList (response_view r st) ! i) = Str (claim_text (claims r ! i))
         \<and> ce_status (claimsList (response_view r st) ! i) = trust_level (claims r ! i)
         \<and> ce_explanation (claimsList (response_view r st) ! i) = Str (claim_explanation (claims r ! i))
         \<and> ce_confidence (claimsList (response_view r st) ! i) = Math_round (confidence (claims r ! i)))"
proof -
  have cl: "claimsList (response_view r st) = claim_views 0 (claims r)"
    by (cases "educational_insights r") (simp_all add: response_view_def)
  show ?thesis
    by (simp add: displayResults_enc cl claim_views_length claim_views_nth claim_view_def)
qed

theorem claims_order_preserved_witness:
  "(1::nat) < length (claims \<lparr>overall_trust_score = Fin 40, overall_verdict = ''Misleading'',
         claims = [\<lparr>claim_text = ''zebra'', trust_level = ''LOW'', confidence = Fin 80,
                     claim_explanation = ''e1'', manipulation_techniques = [''fear'']\<rparr>,
                   \<lparr>claim_text = ''apple'', trust_level = ''HIGH'', confidence = Fin 95,
                     claim_explanation = ''e2'', manipulation_techniques = []\<rparr>],
         explanation = ''ok'', sources = [], educational_insights = None\<rparr>)
   \<and> ce_text (claimsList (completed (displayResults plain_platform
      (enc_response \<lparr>overall_trust_score = Fin 40, overall_verdict = ''Misleading'',
         claims = [\<lparr>claim_text = ''zebra'', trust_level = ''LOW'', confidence = Fin 80,
                     claim_explanation = ''e1'', manipulation_techniques = [''fear'']\<rparr>,
                   \<lparr>claim_text = ''apple'', trust_level = ''HIGH'', confidence = Fin 95,
                     claim_explanation = ''e2'', manipulation_techniques = []\<rparr>],
         explanation = ''ok'', sources = [], educational_insights = None\<rparr>)
      fresh_page)) ! 0) = Str ''zebra''
   \<and> ce_text (claimsList (completed (displayResults plain_platform
      (enc_response \<lparr>overall_trust_score = Fin 40, overall_verdict = ''Misleading'',
         claims = [\<lparr>claim_text = ''zebra'', trust_level = ''LOW'', confidence = Fin 80,
                     claim_explanation = ''e1'', manipulation_techniques = [''fear'']\<rparr>,
                   \<lparr>claim_text = ''apple'', trust_level = ''HIGH'', confidence = Fin 95,
                     claim_explanation = ''e2'', manipulation_techniques = []\<rparr>],
         explanation = ''ok'', sources = [], educational_insights = None\<rparr>)
      fresh_page)) ! 1) = Str ''apple''"
proof -
  let ?r = "\<lparr>overall_trust_score = Fin 40, overall_verdict = ''Misleading'',
         claims = [\<lparr>claim_text = ''zebra'', trust_level = ''LOW'', confidence = Fin 80,
                     claim_explanation = ''e1'', manipulation_techniques = [''fear'']\<rparr>,
                   \<lparr>claim_text = ''apple'', trust_level = ''HIGH'', confidence = Fin 95,
                     claim_explanation = ''e2'', manipulation_techniques = []\<rparr>],
         explanation = ''ok'', sources = [], educational_insights = None\<rparr>"
  note th = claims_order_preserved [of plain_platform ?r fresh_page]
  note run = th [THEN conjunct1]
  note each = th [THEN conjunct2, THEN conjunct2, rule_format]
  have h0: "0 < length (claims ?r)" and h1: "1 < length (claims ?r)" by simp_all
  have e0: "ce_text (claimsList (response_view ?r fresh_page) ! 0) = Str (claim_text (claims ?r ! 0))"
    using each [OF h0] by (elim conjE)
  have e1: "ce_text (claimsList (response_view ?r fresh_page) ! 1) = Str (claim_text (claims ?r ! 1))"
    using each [OF h1] by (elim conjE)
  show ?thesis unfolding run completed.simps e0 e1 by simp
qed

text \<open>
  C4, as stated, fails: a claim with \<open>trust_level = "unknown"\<close> is rendered with the
  class \<open>claim-item unknown\<close> and the label \<open>unknown\<close>, not as medium.
\<close>

theorem unknown_trust_level_not_medium:
  "map_option ce_class (claimElement plain_platform 0
      (enc_claim \<lparr>claim_text = ''The sky is green'', trust_level = ''unknown'',
         confidence = Fin 50, claim_explanation = ''No source'',
         manipulation_techniques = []\<rparr>)) = Some ''claim-item unknown''
   \<and> map_option ce_status (claimElement plain_platform 0
      (enc_claim \<lparr>claim_text = ''The sky is green'', trust_level = ''unknown'',
         confidence = Fin 50, claim_explanation = ''No source'',
         manipulation_techniques = []\<rparr>)) = Some ''unknown''
   \<and> map_option ce_class (claimElement plain_platform 0
      (enc_claim \<lparr>claim_text = ''The sky is green'', trust_level = ''unknown'',
         confidence = Fin 50, claim_explanation = ''No source'',
         manipulation_techniques = []\<rparr>)) \<noteq> Some ''claim-item medium''"
  unfolding claimElement_enc claim_view_def by code_simp

text \<open>
  C4, amended. The trust level is not normalised to a fixed set: its lower-case form
  is used verbatim as the level class of the claim and the string itself, as received,
  as its label. So the class is high, medium or low exactly when the trust level is
  that word in any letter case, and an unrecognised value is passed through: it is
  mapped neither to medium nor to high.
\<close>

theorem trust_level_lowercased_verbatim:
  "claimElement p i (enc_claim c) = Some (claim_view i c)
   \<and> ce_class (claim_view i c) = ''claim-item '' @ toLowerCase (trust_level c)
   \<and> ce_status (claim_view i c) = trust_level c
   \<and> (ce_class (claim_view i c) = ''claim-item high'' \<longleftrightarrow> toLowerCase (trust_level c) = ''high'')
   \<and> (ce_class (claim_view i c) = ''claim-item medium'' \<longleftrightarrow> toLowerCase (trust_level c) = ''medium'')
   \<and> (ce_class (claim_view i c) = ''claim-item low'' \<longleftrightarrow> toLowerCase (trust_level c) = ''low'')"
  by (simp add: claimElement_enc claim_view_def)

theorem trust_level_lowercased_verbatim_witness:
  "claimElement plain_platform 2
      (enc_claim \<lparr>claim_text = ''Rates were cut'', trust_level = ''High'',
         confidence = Fin 90, claim_explanation = ''RBI release'',
         manipulation_techniques = []\<rparr>)
   = Some \<lparr>ce_class = ''claim-item high'', ce_index = 3, ce_status = ''High'',
           ce_confidence = Fin 90, ce_text = Str ''Rates were cut'',
           ce_explanation = Str ''RBI release'', ce_techniques = None\<rparr>"
  using trust_level_lowercased_verbatim [of plain_platform 2
      "\<lparr>claim_text = ''Rates were cut'', trust_level = ''High'',
         confidence = Fin 90, claim_explanation = ''RBI release'',
         manipulation_techniques = []\<rparr>"]
  unfolding claim_view_def by code_simp

section \<open>Educational insights\<close>

text \<open>
  C9, as stated, fails: an entry under the exact key whose description is the empty
  string is rendered with the placeholder, not with its description. (And when the
  payload carries no \<open>technique_explanations\<close> at all, rendering throws.)
\<close>

theorem empty_description_replaced_by_placeholder:
  "educationalContent (completed (displayEducationalInsights plain_platform
      (enc_insights \<lparr>manipulation_techniques_detected = [''fear-mongering''],
         technique_explanations = [(''fear-mongering'', \<lparr>description = [], detection_tips = None\<rparr>)],
         verification_tips = None\<rparr>)
      fresh_page))
   = [Techniques [\<lparr>te_name = Str ''fear-mongering'',
                   te_description = Str ''Technique used to mislead readers'',
                   te_tips = None\<rparr>]]
   \<and> map_of (technique_explanations \<lparr>manipulation_techniques_detected = [''fear-mongering''],
         technique_explanations = [(''fear-mongering'', \<lparr>description = [], detection_tips = None\<rparr>)],
         verification_tips = None\<rparr>) ''fear-mongering''
       = Some \<lparr>description = [], detection_tips = None\<rparr>
   \<and> threw (displayEducationalInsights plain_platform
        (Obj [(''manipulation_techniques_detected'', Arr [Str ''fear-mongering''])])
        fresh_page)"
  (is "?shown \<and> ?entry \<and> ?missing")
proof (intro conjI)
  show ?shown
    by (simp add: displayEducationalInsights_enc insights_view_def technique_view_def)
  show ?entry by simp
  show ?missing
    by (simp add: displayEducationalInsights_def techniques_part_def techniqueEntry_def
        getprop_opt_def js_gt_def)
qed

text \<open>
  C9, amended. For every EducationalInsights payload that carries a
  \<open>technique_explanations\<close> mapping, each detected technique is rendered, in order,
  under its own name. The description shown is the one of the entry under the exact
  same key when that description is not empty; when there is no such entry, or its
  description is empty, the placeholder "Technique used to mislead readers" is shown.
\<close>

theorem detected_techniques_all_rendered:
  "displayEducationalInsights p (enc_insights i) st
     = Normal (st\<lparr>educationalContent := insights_view i, educationalSection_display := ''block''\<rparr>)
   \<and> (manipulation_techniques_detected i \<noteq> [] \<longrightarrow>
        hd (insights_view i)
          = Techniques (map (technique_view i) (manipulation_techniques_detected i)))
   \<and> techniqueEntry p (enc_insights i) (Str t) = Some (technique_view i t)
   \<and> te_name (technique_view i t) = Str t
   \<and> (map_of (technique_explanations i) t = Some e \<and> description e \<noteq> [] \<longrightarrow>
        te_description (technique_view i t) = Str (description e))
   \<and> (map_of (technique_explanations i) t = Some e \<and> description e = [] \<longrightarrow>
        te_description (technique_view i t) = Str ''Technique used to mislead readers'')
   \<and> (map_of (technique_explanations i) t = None \<longrightarrow>
        te_description (technique_view i t) = Str ''Technique used to mislead readers'')"
  by (simp add: displayEducationalInsights_enc techniqueEntry_enc insights_view_def
      technique_view_def split: option.split)

theorem detected_techniques_all_rendered_witness:
  "educationalContent (completed (displayEducationalInsights plain_platform
      (enc_insights \<lparr>manipulation_techniques_detected = [''urgency'', ''fake source''],
         technique_explanations =
           [(''urgency'', \<lparr>description = ''Pushes the reader to act at once'',
                           detection_tips = Some [''Pause'', ''Check the date'']\<rparr>)],
         verification_tips = None\<rparr>)
      fresh_page))
   = [Techniques [\<lparr>te_name = Str ''urgency'',
                   te_description = Str ''Pushes the reader to act at once'',
                   te_tips = Some [Str ''Pause'', Str ''Check the date'']\<rparr>,
                  \<lparr>te_name = Str ''fake source'',
                   te_description = Str ''Technique used to mislead readers'',
                   te_tips = None\<rparr>]]"
proof -
  let ?i = "\<lparr>manipulation_techniques_detected = [''urgency'', ''fake source''],
         technique_explanations =
           [(''urgency'', \<lparr>description = ''Pushes the reader to act at once'',
                           detection_tips = Some [''Pause'', ''Check the date'']\<rparr>)],
         verification_tips = None\<rparr>"
  let ?e = "\<lparr>description = ''Pushes the reader to act at once'',
             detection_tips = Some [''Pause'', ''Check the date'']\<rparr>"
  note a = detected_techniques_all_rendered [of plain_platform ?i fresh_page "''urgency''" ?e]
  note b = detected_techniques_all_rendered [of plain_platform ?i fresh_page "''fake source''" ?e]
  have ne: "manipulation_techniques_detected ?i \<noteq> []" by simp
  have ha: "map_of (technique_explanations ?i) ''urgency'' = Some ?e \<and> description ?e \<noteq> []"
    by simp
  have hb: "map_of (technique_explanations ?i) ''fake source'' = None" by simp
  from a have run: "displayEducationalInsights plain_platform (enc_insights ?i) fresh_page
     = Normal (fresh_page\<lparr>educationalContent := insights_view ?i,
                          educationalSection_display := ''block''\<rparr>)"
    by (rule conjunct1)
  have only: "insights_view ?i = [hd (insights_view ?i)]"
    by (simp add: insights_view_def)
  from a ne have blk: "hd (insights_view ?i)
      = Techniques [technique_view ?i ''urgency'', technique_view ?i ''fake source'']"
    by simp
  have da: "te_description (technique_view ?i ''urgency'') = Str ''Pushes the reader to act at once''"
    using a ha by simp
  have db: "te_description (technique_view ?i ''fake source'') = Str ''Technique used to mislead readers''"
    using b hb by simp
  have va: "technique_view ?i ''urgency'' = \<lparr>te_name = Str ''urgency'',
                   te_description = Str ''Pushes the reader to act at once'',
                   te_tips = Some [Str ''Pause'', Str ''Check the date'']\<rparr>"
    using da by (simp add: technique_view_def)
  have vb: "technique_view ?i ''fake source'' = \<lparr>te_name = Str ''fake source'',
                   te_description = Str ''Technique used to mislead readers'',
                   te_tips = None\<rparr>"
    using db by (simp add: technique_view_def)
  show ?thesis
    unfolding run completed.simps using only blk va vb by simp
qed

section \<open>Image submission\<close>

text \<open>
  C5, as stated, fails: a PDF chosen with the file picker gets its preview and, on the
  click on "analyze", is sent to the network with no error shown; and a PDF dropped on
  the upload area is ignored without any error.
\<close>

theorem picker_sends_non_image:
  "fetches (analyzeImageBtn_click (reader_onload
      \<lparr>file_name = ''report.pdf'', file_type = ''application/pdf''\<rparr>
      (handleImageUpload [\<lparr>file_name = ''report.pdf'', file_type = ''application/pdf''\<rparr>]
         fresh_page)))
   = [\<lparr>req_url = ''https://truthguard-ai-nwp9.onrender.com/check-image'',
       req_method = ''POST'',
       req_body = FormBody \<lparr>file_name = ''report.pdf'', file_type = ''application/pdf''\<rparr>\<rparr>]
   \<and> alerts (analyzeImageBtn_click (reader_onload
      \<lparr>file_name = ''report.pdf'', file_type = ''application/pdf''\<rparr>
      (handleImageUpload [\<lparr>file_name = ''report.pdf'', file_type = ''application/pdf''\<rparr>]
         fresh_page))) = []
   \<and> handleImageDrop [\<lparr>file_name = ''report.pdf'', file_type = ''application/pdf''\<rparr>]
         fresh_page = fresh_page"
  by (simp add: analyzeImageBtn_click_def reader_onload_def handleImageUpload_def
      displayImagePreview_def analyzeImage_request_def showLoading_def fresh_page_def
      handleImageDrop_def startsWith_def)

text \<open>
  C5, amended. A file handed over by drag-and-drop whose MIME type does not start with
  \<open>image/\<close> is ignored silently: the page is left as it was, so no preview read is
  started, no analyze handler is installed, no alert is shown and no network call is
  issued.
\<close>

theorem dropped_non_image_ignored:
  assumes "\<not> startsWith (file_type f) ''image/''"
  shows "handleImageDrop (f # fs) st = st
         \<and> pending_reads (handleImageDrop (f # fs) st) = pending_reads st
         \<and> analyzeImageBtn_onclick (handleImageDrop (f # fs) st) = analyzeImageBtn_onclick st
         \<and> alerts (handleImageDrop (f # fs) st) = alerts st
         \<and> fetches (handleImageDrop (f # fs) st) = fetches st"
  using assms by (simp add: handleImageDrop_def)

theorem dropped_non_image_ignored_witness:
  "\<not> startsWith (file_type \<lparr>file_name = ''notes.txt'', file_type = ''text/plain''\<rparr>) ''image/''
   \<and> fetches (handleImageDrop [\<lparr>file_name = ''notes.txt'', file_type = ''text/plain''\<rparr>]
        fresh_page) = []
   \<and> pending_reads (handleImageDrop [\<lparr>file_name = ''notes.txt'', file_type = ''text/plain''\<rparr>]
        fresh_page) = []"
proof -
  have h: "\<not> startsWith (file_type \<lparr>file_name = ''notes.txt'', file_type = ''text/plain''\<rparr>) ''image/''"
    by (simp add: startsWith_def)
  show ?thesis
    using h dropped_non_image_ignored [OF h, of "[]" fresh_page]
    by (simp add: fresh_page_def)
qed

end
